theory Spec2Isabelle
  imports Main "HOL-Library.Word"
begin

unbundle bit_operations_syntax

section \<open>Data model (linstor.go, lines 30-100)\<close>

text \<open>
  Go structs are records. The anonymous structs of the source get a name of their own:
  \<open>resVlm\<close> (an element of \<open>resInfo.Vlms\<close>), \<open>keyValue\<close> (the key and value
  pairs), \<open>resState\<close> (an element of \<open>ResourceStates\<close>), \<open>resListEntry\<close> (an
  element of \<open>resList\<close>) and \<open>returnStatus\<close> (an element of \<open>returnStatuses\<close>).
  Several structs share field names; a field is written with its record's name
  (\<open>resInfo.Name\<close>, \<open>volInfo.VlmNr\<close>) wherever two records have it.

  Go's \<open>int\<close> fields are modelled as \<open>int\<close>: the code only compares and prints them.
  \<open>uint64\<close> is a 64-bit word.
\<close>

type_synonym uint64 = "64 word"

record Resource =
  Name :: string
  NodeName :: string
  Redundancy :: string
  NodeList :: "string list"
  ClientList :: "string list"
  StoragePool :: string
  SizeKiB :: uint64

record keyValue =
  Value :: string
  Key :: string

record resVlm =
  VlmNr :: int
  StorPoolName :: string
  StorPoolUUID :: string
  VlmMinorNr :: int
  VlmUUID :: string
  VlmDfnUUID :: string

record resInfo =
  Vlms :: "resVlm list"
  NodeUUID :: string
  UUID :: string
  NodeName :: string
  Props :: "keyValue list"
  RscDfnUUID :: string
  Name :: string
  RscFlags :: "string list"

record volInfo =
  HasDisk :: bool
  CheckMetaData :: bool
  HasMetaData :: bool
  IsPresent :: bool
  DiskFailed :: bool
  NetSize :: int
  VlmMinorNr :: int
  GrossSize :: int
  VlmNr :: int

record resState =
  RequiresAdjust :: bool
  RscName :: string
  IsPrimary :: bool
  VlmStates :: "volInfo list"
  IsPresent :: bool
  NodeName :: string

record resListEntry =
  ResourceStates :: "resState list"
  Resources :: "resInfo list"

type_synonym resList = "resListEntry list"

record returnStatus =
  DetailsFormat :: string
  MessageFormat :: string
  CauseFormat :: string
  ObjRefs :: "keyValue list"
  Variables :: "keyValue list"
  RetCode :: uint64

type_synonym returnStatuses = "returnStatus list"

text \<open>\<open>FSUtil\<close> embeds a pointer to a \<open>Resource\<close>, which may be nil.\<close>

record FSUtil =
  Resource :: "Resource option"
  FSType :: string

text \<open>The zero values Go gives a struct: \<open>&volInfo{}\<close>, and the fields a decoder leaves out.\<close>

definition zero_volInfo :: volInfo where
  "zero_volInfo =
     \<lparr>HasDisk = False, CheckMetaData = False, HasMetaData = False, volInfo.IsPresent = False,
      DiskFailed = False, NetSize = 0, volInfo.VlmMinorNr = 0, GrossSize = 0, volInfo.VlmNr = 0\<rparr>"

definition zero_resInfo :: resInfo where
  "zero_resInfo =
     \<lparr>Vlms = [], NodeUUID = [], UUID = [], resInfo.NodeName = [], Props = [],
      RscDfnUUID = [], resInfo.Name = [], RscFlags = []\<rparr>"

definition zero_resState :: resState where
  "zero_resState =
     \<lparr>RequiresAdjust = False, RscName = [], IsPrimary = False, VlmStates = [],
      resState.IsPresent = False, resState.NodeName = []\<rparr>"

definition zero_Resource :: Resource where
  "zero_Resource =
     \<lparr>Resource.Name = [], Resource.NodeName = [], Redundancy = [], NodeList = [],
      ClientList = [], StoragePool = [], SizeKiB = 0\<rparr>"

section \<open>Errors, panics and outcomes\<close>

text \<open>
  One constructor for each place the source builds or passes on an error:
  \<^item> \<open>ExecError err\<close>: the error of \<open>exec.Command(...).CombinedOutput()\<close>, returned as it is;
  \<^item> \<open>ExecErrorOutput err out\<close>: \<open>"%v : %s"\<close> in \<open>linstor\<close>;
  \<^item> \<open>CouldntUnmarshal input err\<close>: \<open>"couldn't Unmarshal %s :%v"\<close>;
  \<^item> \<open>UnmarshalError err\<close>: the decoder's error, returned as it is by \<open>getDevPath\<close>;
  \<^item> \<open>ErrorStatus s\<close>: \<open>"error status from one or more linstor operations: %s"\<close>;
  \<^item> \<open>UnableToDetermineDefined name err\<close>: \<open>"Unable to determine if resource %s is defined %v"\<close>;
  \<^item> \<open>NoResourceDefinition name\<close>: \<open>"No resource definition for resource %s"\<close>;
  \<^item> \<open>UnableToAssign name node err\<close>: \<open>"unable to assign resource %s failed to check if it
    was already present on node %s: %v"\<close>;
  \<^item> \<open>UnableToFormat path err\<close>: \<open>"unable to format filesystem for %q: %v"\<close>;
  \<^item> \<open>RefusingToOverwrite path deviceFS fsType\<close>: \<open>"device %q already formatted with %q
    filesystem, refusing to overwrite with %q filesystem"\<close>;
  \<^item> \<open>CouldntCreateFilesystem fsType err out\<close>: \<open>"couldn't create %s filesystem %v: %q"\<close>;
  \<^item> \<open>CouldntParseFilesystemData s\<close>: \<open>"couldn't parse filesystem data from %s"\<close>;
  \<^item> \<open>CouldntFind key\<close>: \<open>"couldn't find %s in %s"\<close> (the printed map is left out);
  \<^item> \<open>CouldntStat path err\<close>: \<open>"Couldn't stat %s: %v"\<close>.
\<close>

datatype error =
    ExecError string
  | ExecErrorOutput string string
  | CouldntUnmarshal string string
  | UnmarshalError string
  | ErrorStatus returnStatuses
  | UnableToDetermineDefined string error
  | NoResourceDefinition string
  | UnableToAssign string string error
  | UnableToFormat string error
  | RefusingToOverwrite string string string
  | CouldntCreateFilesystem string string string
  | CouldntParseFilesystemData string
  | CouldntFind string
  | CouldntStat string string

text \<open>
  What a call does: it returns a value (\<open>Ok\<close>; for a Go function returning only an
  \<open>error\<close>, \<open>Ok ()\<close> is nil), it returns a non-nil error (\<open>Err\<close>; every error return
  of the source returns the zero value beside it), or it panics (\<open>Panic\<close>: the run-time
  panic of an index out of range, which no function of the file recovers).
\<close>

datatype 'a outcome = Ok 'a | Err error | Panic

section \<open>The host: external commands, the file system, the JSON decoder\<close>

text \<open>
  Everything outside the file is a parameter. \<open>'w\<close> is the state of the outside world.
  \<^item> \<open>CombinedOutput argv w\<close> is \<open>exec.Command(argv...).CombinedOutput()\<close>: the output,
    the error (\<open>None\<close> is nil) and the world afterwards;
  \<^item> \<open>Lstat path w\<close> is the error of \<open>os.Lstat(path)\<close>;
  \<^item> \<open>Unmarshal_resList\<close> and \<open>Unmarshal_returnStatuses\<close> are \<open>json.Unmarshal\<close> into
    an empty \<open>resList\<close> and into an empty \<open>returnStatuses\<close>: \<open>Inl\<close> the decoder's error;
  \<^item> \<open>loopvar\<close> is the language version's rule for the variable of a \<open>for\<close> statement:
    one variable for the whole loop (before Go 1.22) or a new one at every iteration.
    \<open>getDevPath\<close> keeps the address of such a variable.
\<close>

datatype loopvar = PerLoop | PerIteration

record 'w host =
  CombinedOutput :: "string list \<Rightarrow> 'w \<Rightarrow> (string \<times> string option) \<times> 'w"
  Lstat :: "string \<Rightarrow> 'w \<Rightarrow> string option"
  Unmarshal_resList :: "string \<Rightarrow> string + resList"
  Unmarshal_returnStatuses :: "string \<Rightarrow> string + returnStatuses"
  loopvar :: loopvar

text \<open>
  The state threaded through the operations: the world, and the commands issued so far,
  in order (a record of the calls, which the source does not keep).
\<close>

record 'w sys =
  world :: 'w
  issued :: "string list list"

definition exec_Command ::
  "'w host \<Rightarrow> string list \<Rightarrow> 'w sys \<Rightarrow> (string \<times> string option) \<times> 'w sys" where
  "exec_Command h argv s =
     (case CombinedOutput h argv (world s) of
        (r, w') \<Rightarrow> (r, \<lparr>world = w', issued = issued s @ [argv]\<rparr>))"

definition ls_rsc :: "string list" where
  "ls_rsc = [''linstor'', ''-m'', ''ls-rsc'']"

section \<open>Status validation (lines 102-154)\<close>

definition maskError :: uint64 where
  "maskError = 0xC000000000000000"

definition maskWarn :: uint64 where
  "maskWarn = 0x8000000000000000"

definition maskInfo :: uint64 where
  "maskInfo = 0x4000000000000000"

definition linstorSuccess :: "uint64 \<Rightarrow> bool" where
  "linstorSuccess retcode = (retcode AND (maskError OR maskWarn OR maskInfo) = 0)"

text \<open>
  \<open>validate\<close>: the loop over the messages of \<open>s\<close>; the error carries the whole of \<open>s\<close>
  (\<open>json.Marshal\<close> of strings and numbers does not fail).
\<close>

fun validate_range :: "returnStatuses \<Rightarrow> returnStatuses \<Rightarrow> error option" where
  "validate_range s [] = None"
| "validate_range s (message # rest) =
     (if \<not> linstorSuccess (RetCode message) then Some (ErrorStatus s)
      else validate_range s rest)"

definition validate :: "returnStatuses \<Rightarrow> error option" where
  "validate s = validate_range s s"

definition linstor :: "'w host \<Rightarrow> string list \<Rightarrow> 'w sys \<Rightarrow> unit outcome \<times> 'w sys" where
  "linstor h args s =
     (case exec_Command h (''linstor'' # ''-m'' # args) s of
        ((out, Some err), s1) \<Rightarrow> (Err (ExecErrorOutput err out), s1)
      | ((out, None), s1) \<Rightarrow>
          (case Unmarshal_returnStatuses h out of
             Inl uerr \<Rightarrow> (Err (CouldntUnmarshal out uerr), s1)
           | Inr st \<Rightarrow>
               (case validate st of
                  Some e \<Rightarrow> (Err e, s1)
                | None \<Rightarrow> (Ok (), s1))))"

section \<open>Reading the resource listing (lines 226-304)\<close>

fun doResExists_range :: "resInfo list \<Rightarrow> string \<Rightarrow> bool" where
  "doResExists_range [] resourceName = False"
| "doResExists_range (r # rest) resourceName =
     (if resInfo.Name r = resourceName then True else doResExists_range rest resourceName)"

text \<open>\<open>resources[0]\<close> of an empty list panics.\<close>

definition doResExists :: "(string \<Rightarrow> string + resList) \<Rightarrow> string \<Rightarrow> string \<Rightarrow> bool outcome" where
  "doResExists unmarshal resourceName resInfo =
     (case unmarshal resInfo of
        Inl err \<Rightarrow> Err (CouldntUnmarshal resInfo err)
      | Inr resources \<Rightarrow>
          (case resources of
             [] \<Rightarrow> Panic
           | r0 # _ \<Rightarrow> Ok (doResExists_range (Resources r0) resourceName)))"

definition Exists :: "'w host \<Rightarrow> Resource \<Rightarrow> 'w sys \<Rightarrow> bool outcome \<times> 'w sys" where
  "Exists h r s =
     (case exec_Command h ls_rsc s of
        ((out, Some err), s1) \<Rightarrow> (Err (ExecError err), s1)
      | ((out, None), s1) \<Rightarrow> (doResExists (Unmarshal_resList h) (Resource.Name r) out, s1))"

fun doResOnNode_range :: "resInfo list \<Rightarrow> string \<Rightarrow> string \<Rightarrow> bool" where
  "doResOnNode_range [] resName nodeName = False"
| "doResOnNode_range (res # rest) resName nodeName =
     (if resInfo.Name res = resName \<and> resInfo.NodeName res = nodeName then True
      else doResOnNode_range rest resName nodeName)"

definition doResOnNode :: "resList \<Rightarrow> string \<Rightarrow> string \<Rightarrow> bool outcome" where
  "doResOnNode list resName nodeName =
     (case list of
        [] \<Rightarrow> Panic
      | l0 # _ \<Rightarrow> Ok (doResOnNode_range (Resources l0) resName nodeName))"

definition OnNode :: "'w host \<Rightarrow> Resource \<Rightarrow> string \<Rightarrow> 'w sys \<Rightarrow> bool outcome \<times> 'w sys" where
  "OnNode h r nodeName s =
     (case exec_Command h ls_rsc s of
        ((out, Some err), s1) \<Rightarrow> (Err (ExecError err), s1)
      | ((out, None), s1) \<Rightarrow>
          (case Unmarshal_resList h out of
             Inl uerr \<Rightarrow> (Err (CouldntUnmarshal out uerr), s1)
           | Inr l \<Rightarrow> (doResOnNode l (Resource.Name r) nodeName, s1)))"

text \<open>
  \<open>doIsClient\<close>: the inner loop returns from the function at the first volume number 0
  (\<open>Some\<close> of the returned value), or runs to its end (\<open>None\<close>) and the outer loop goes on.
\<close>

fun doIsClient_VlmStates :: "volInfo list \<Rightarrow> bool option" where
  "doIsClient_VlmStates [] = None"
| "doIsClient_VlmStates (v # rest) =
     (if volInfo.VlmNr v = 0 then Some (\<not> HasDisk v) else doIsClient_VlmStates rest)"

fun doIsClient_range :: "Resource \<Rightarrow> resState list \<Rightarrow> string \<Rightarrow> bool" where
  "doIsClient_range r [] nodeName = False"
| "doIsClient_range r (res # rest) nodeName =
     (if Resource.Name r = RscName res \<and> nodeName = resState.NodeName res then
        (case doIsClient_VlmStates (VlmStates res) of
           Some b \<Rightarrow> b
         | None \<Rightarrow> doIsClient_range r rest nodeName)
      else doIsClient_range r rest nodeName)"

definition doIsClient :: "Resource \<Rightarrow> resList \<Rightarrow> string \<Rightarrow> bool outcome" where
  "doIsClient r list nodeName =
     (case list of
        [] \<Rightarrow> Panic
      | l0 # _ \<Rightarrow> Ok (doIsClient_range r (ResourceStates l0) nodeName))"

text \<open>\<open>IsClient\<close> drops the command's error and answers false on a decoding error.\<close>

definition IsClient :: "'w host \<Rightarrow> Resource \<Rightarrow> string \<Rightarrow> 'w sys \<Rightarrow> bool outcome \<times> 'w sys" where
  "IsClient h r nodeName s =
     (case exec_Command h ls_rsc s of
        ((out, _), s1) \<Rightarrow>
          (case Unmarshal_resList h out of
             Inl uerr \<Rightarrow> (Ok False, s1)
           | Inr list \<Rightarrow> (doIsClient r list nodeName, s1)))"

section \<open>Assigning a resource (lines 171-208)\<close>

text \<open>
  The two loops of \<open>Assign\<close> differ in the arguments that follow the node only:
  \<open>"-s", r.StoragePool\<close> for the nodes of \<open>NodeList\<close>, \<open>"--diskless"\<close> for those of
  \<open>ClientList\<close>. \<open>Assign_range\<close> is one such loop, \<open>flags\<close> being those arguments.
\<close>

fun Assign_range ::
  "'w host \<Rightarrow> Resource \<Rightarrow> string list \<Rightarrow> string list \<Rightarrow> 'w sys \<Rightarrow> unit outcome \<times> 'w sys" where
  "Assign_range h r flags [] s = (Ok (), s)"
| "Assign_range h r flags (node # rest) s =
     (case OnNode h r node s of
        (Err err, s1) \<Rightarrow> (Err (UnableToAssign (Resource.Name r) node err), s1)
      | (Panic, s1) \<Rightarrow> (Panic, s1)
      | (Ok present, s1) \<Rightarrow>
          (if \<not> present then
             (case linstor h ([''create-resource'', Resource.Name r, node] @ flags) s1 of
                (Err err, s2) \<Rightarrow> (Err err, s2)
              | (Panic, s2) \<Rightarrow> (Panic, s2)
              | (Ok u, s2) \<Rightarrow> Assign_range h r flags rest s2)
           else Assign_range h r flags rest s1))"

definition Assign :: "'w host \<Rightarrow> Resource \<Rightarrow> 'w sys \<Rightarrow> unit outcome \<times> 'w sys" where
  "Assign h r s =
     (case Exists h r s of
        (Err err, s1) \<Rightarrow> (Err (UnableToDetermineDefined (Resource.Name r) err), s1)
      | (Panic, s1) \<Rightarrow> (Panic, s1)
      | (Ok ok, s1) \<Rightarrow>
          (if \<not> ok then (Err (NoResourceDefinition (Resource.Name r)), s1)
           else
             (case Assign_range h r [''-s'', StoragePool r] (NodeList r) s1 of
                (Err err, s2) \<Rightarrow> (Err err, s2)
              | (Panic, s2) \<Rightarrow> (Panic, s2)
              | (Ok u, s2) \<Rightarrow> Assign_range h r [''--diskless''] (ClientList r) s2)))"

section \<open>Probing and formatting a device (lines 364-423)\<close>

text \<open>
  A Go string is a sequence of bytes, here a \<open>string\<close> (a list of 8-bit characters).

  \<open>strings.Fields\<close> splits around each run of white space, as \<open>unicode.IsSpace\<close> defines
  it on the UTF-8 runes of the string. \<open>isSpace_width s\<close> is the number of bytes of the
  white-space rune that \<open>s\<close> starts with, and 0 when it starts with none: the six ASCII
  characters, U+0085 and U+00A0 (two bytes), U+1680, U+2000 to U+200A, U+2028, U+2029,
  U+202F, U+205F and U+3000 (three bytes). The first byte of each of these encodings is
  never a continuation byte, so such a rune starts wherever its bytes stand.
\<close>

definition asciiSpace :: "char \<Rightarrow> bool" where
  "asciiSpace c =
     (c = CHR 0x09 \<or> c = CHR 0x0A \<or> c = CHR 0x0B \<or> c = CHR 0x0C \<or> c = CHR 0x0D \<or> c = CHR 0x20)"

definition isSpace_width :: "string \<Rightarrow> nat" where
  "isSpace_width s =
     (case s of
        [] \<Rightarrow> 0
      | c # cs \<Rightarrow>
          if asciiSpace c then 1
          else if c = CHR 0xC2 \<and> (take 1 cs = [CHR 0x85] \<or> take 1 cs = [CHR 0xA0]) then 2
          else if c = CHR 0xE1 \<and> take 2 cs = [CHR 0x9A, CHR 0x80] then 3
          else if c = CHR 0xE2 \<and> take 1 cs = [CHR 0x80] \<and>
                  (case drop 1 cs of
                     [] \<Rightarrow> False
                   | d # _ \<Rightarrow>
                       (0x80 \<le> (of_char d :: nat) \<and> (of_char d :: nat) \<le> 0x8A) \<or>
                       d = CHR 0xA8 \<or> d = CHR 0xA9 \<or> d = CHR 0xAF) then 3
          else if c = CHR 0xE2 \<and> take 2 cs = [CHR 0x81, CHR 0x9F] then 3
          else if c = CHR 0xE3 \<and> take 2 cs = [CHR 0x80, CHR 0x80] then 3
          else 0)"

text \<open>\<open>Fields_scan tok s\<close>: \<open>tok\<close> is the field being read, \<open>s\<close> what is left to read.\<close>

function Fields_scan :: "string \<Rightarrow> string \<Rightarrow> string list" where
  "Fields_scan tok [] = (if tok = [] then [] else [tok])"
| "Fields_scan tok (c # cs) =
     (if isSpace_width (c # cs) = 0 then Fields_scan (tok @ [c]) cs
      else (if tok = [] then [] else [tok]) @ Fields_scan [] (drop (isSpace_width (c # cs) - 1) cs))"
  by pat_completeness auto
termination
  by (relation "measure (\<lambda>(tok, s). length s)") auto

definition Fields :: "string \<Rightarrow> string list" where
  "Fields s = Fields_scan [] s"

text \<open>
  \<open>strings.Split(s, sep)\<close> for a separator of one byte: the pieces between the
  separators, one more than there are separators.
\<close>

fun Split_scan :: "char \<Rightarrow> string \<Rightarrow> string \<Rightarrow> string list" where
  "Split_scan sep piece [] = [piece]"
| "Split_scan sep piece (c # cs) =
     (if c = sep then piece # Split_scan sep [] cs else Split_scan sep (piece @ [c]) cs)"

definition Split :: "string \<Rightarrow> char \<Rightarrow> string list" where
  "Split s sep = Split_scan sep [] s"

definition FSKey :: string where
  "FSKey = ''ID_FS_TYPE''"

text \<open>The loop of \<open>doCheckFSType\<close> over the fields, filling the map \<open>blockAttrs\<close>.\<close>

fun doCheckFSType_range ::
  "string \<Rightarrow> string list \<Rightarrow> (string \<rightharpoonup> string) \<Rightarrow> (string \<rightharpoonup> string) outcome" where
  "doCheckFSType_range s [] blockAttrs = Ok blockAttrs"
| "doCheckFSType_range s (pair # rest) blockAttrs =
     (let p = Split pair (CHR ''='') in
      if length p < 2 then Err (CouldntParseFilesystemData s)
      else doCheckFSType_range s rest (blockAttrs(p ! 0 \<mapsto> p ! 1)))"

definition doCheckFSType :: "string \<Rightarrow> string outcome" where
  "doCheckFSType s =
     (let f = Fields s in
      if length f = 0 then Ok []
      else
        (case doCheckFSType_range s f Map.empty of
           Err err \<Rightarrow> Err err
         | Panic \<Rightarrow> Panic
         | Ok blockAttrs \<Rightarrow>
             (case blockAttrs FSKey of
                None \<Rightarrow> Err (CouldntFind FSKey)
              | Some fs \<Rightarrow> Ok fs)))"

text \<open>\<open>checkFSType\<close> drops the error of \<open>blkid\<close> and parses whatever it printed.\<close>

definition blkid :: "string \<Rightarrow> string list" where
  "blkid dev = [''blkid'', ''-o'', ''udev'', dev]"

definition mkfs :: "string \<Rightarrow> string \<Rightarrow> string list" where
  "mkfs fsType path = [''mkfs'', ''-t'', fsType, path]"

definition checkFSType :: "'w host \<Rightarrow> string \<Rightarrow> 'w sys \<Rightarrow> string outcome \<times> 'w sys" where
  "checkFSType h dev s =
     (case exec_Command h (blkid dev) s of
        ((out, _), s1) \<Rightarrow> (doCheckFSType out, s1))"

definition safeFormat :: "'w host \<Rightarrow> FSUtil \<Rightarrow> string \<Rightarrow> 'w sys \<Rightarrow> unit outcome \<times> 'w sys" where
  "safeFormat h f path s =
     (case checkFSType h path s of
        (Err err, s1) \<Rightarrow> (Err (UnableToFormat path err), s1)
      | (Panic, s1) \<Rightarrow> (Panic, s1)
      | (Ok deviceFS, s1) \<Rightarrow>
          (if deviceFS = FSType f then (Ok (), s1)
           else if deviceFS \<noteq> [] \<and> deviceFS \<noteq> FSType f then
             (Err (RefusingToOverwrite path deviceFS (FSType f)), s1)
           else
             (case exec_Command h (mkfs (FSType f) path) s1 of
                ((out, Some err), s2) \<Rightarrow> (Err (CouldntCreateFilesystem (FSType f) err out), s2)
              | ((out, None), s2) \<Rightarrow> (Ok (), s2))))"

section \<open>Finding the device path (lines 440-475)\<close>

text \<open>\<open>fmt.Sprintf("%d", i)\<close>: the decimal digits, after a minus sign for a negative number.\<close>

fun digits :: "nat \<Rightarrow> string" where
  "digits n =
     (if n < 10 then [''0123456789'' ! n]
      else digits (n div 10) @ [''0123456789'' ! (n mod 10)])"

declare digits.simps [simp del]

definition Sprintf_d :: "int \<Rightarrow> string" where
  "Sprintf_d i = (if i < 0 then CHR ''-'' # digits (nat (- i)) else digits (nat i))"

definition doGetDevPath :: "volInfo \<Rightarrow> string" where
  "doGetDevPath vol = ''/dev/drbd'' @ Sprintf_d (volInfo.VlmMinorNr vol)"

text \<open>
  \<open>getDevPath\<close> keeps a pointer, \<open>vol\<close>, and sets it to the address of the inner loop's
  variable \<open>v\<close>. The store is a list of \<open>volInfo\<close> cells and an address is an index into
  it. Cell 0 is the \<open>&volInfo{}\<close> that \<open>vol\<close> points to at first.

  \<open>getDevPath_VlmStates lv a vs (store, vol)\<close> runs the inner loop over \<open>vs\<close>, the variable
  \<open>v\<close> standing at address \<open>a\<close>: each iteration writes the element to \<open>v\<close> and, when its
  volume number is 0, sets \<open>vol\<close> to \<open>a\<close>. With one variable for the loop the next
  iteration writes to the same cell; with one for each iteration it gets a new cell.
  The outer loop gives each run of the inner loop a new cell for its \<open>v\<close>.
\<close>

fun getDevPath_VlmStates ::
  "loopvar \<Rightarrow> nat \<Rightarrow> volInfo list \<Rightarrow> volInfo list \<times> nat \<Rightarrow> volInfo list \<times> nat" where
  "getDevPath_VlmStates lv a [] (store, vol) = (store, vol)"
| "getDevPath_VlmStates lv a (x # rest) (store, vol) =
     (let store1 = store[a := x];
          vol1 = (if volInfo.VlmNr x = 0 then a else vol)
      in case lv of
           PerLoop \<Rightarrow> getDevPath_VlmStates lv a rest (store1, vol1)
         | PerIteration \<Rightarrow>
             getDevPath_VlmStates lv (length store1) rest (store1 @ [zero_volInfo], vol1))"

fun getDevPath_range ::
  "loopvar \<Rightarrow> Resource \<Rightarrow> resState list \<Rightarrow> volInfo list \<times> nat \<Rightarrow> volInfo list \<times> nat" where
  "getDevPath_range lv r [] (store, vol) = (store, vol)"
| "getDevPath_range lv r (res # rest) (store, vol) =
     (if Resource.Name r = RscName res then
        getDevPath_range lv r rest
          (getDevPath_VlmStates lv (length store) (VlmStates res) (store @ [zero_volInfo], vol))
      else getDevPath_range lv r rest (store, vol))"

definition getDevPath :: "'w host \<Rightarrow> Resource \<Rightarrow> 'w sys \<Rightarrow> string outcome \<times> 'w sys" where
  "getDevPath h r s =
     (case exec_Command h ls_rsc s of
        ((out, Some err), s1) \<Rightarrow> (Err (ExecError err), s1)
      | ((out, None), s1) \<Rightarrow>
          (case Unmarshal_resList h out of
             Inl uerr \<Rightarrow> (Err (UnmarshalError uerr), s1)
           | Inr list \<Rightarrow>
               (case list of
                  [] \<Rightarrow> (Panic, s1)
                | l0 # _ \<Rightarrow>
                    (case getDevPath_range (loopvar h) r (ResourceStates l0) ([zero_volInfo], 0) of
                       (store, vol) \<Rightarrow>
                         (let devicePath = doGetDevPath (store ! vol) in
                          case Lstat h devicePath (world s1) of
                            Some err \<Rightarrow> (Err (CouldntStat devicePath err), s1)
                          | None \<Rightarrow> (Ok devicePath, s1))))))"

section \<open>Example listings and hosts\<close>

text \<open>
  Concrete inputs on which the properties below are evaluated. Each \<open>json_\<close> constant is
  an output of \<open>linstor -m ls-rsc\<close>, and \<open>example_Unmarshal_resList\<close> gives the value
  \<open>json.Unmarshal\<close> decodes it to (a field the text leaves out keeps its zero value);
  any other text is taken to be undecodable.
\<close>

definition vol :: "int \<Rightarrow> int \<Rightarrow> bool \<Rightarrow> volInfo" where
  "vol nr minor disk =
     zero_volInfo\<lparr>volInfo.VlmNr := nr, volInfo.VlmMinorNr := minor, HasDisk := disk\<rparr>"

definition rsc_state :: "string \<Rightarrow> string \<Rightarrow> volInfo list \<Rightarrow> resState" where
  "rsc_state name node vols =
     zero_resState\<lparr>RscName := name, resState.NodeName := node, VlmStates := vols\<rparr>"

definition rsc :: "string \<Rightarrow> string \<Rightarrow> resInfo" where
  "rsc name node = zero_resInfo\<lparr>resInfo.Name := name, resInfo.NodeName := node\<rparr>"

definition json_empty_array :: string where
  \<open>json_empty_array = ''[]''\<close>

definition json_second_entry :: string where
  \<open>json_second_entry =
     ''[{"resource_states":[],"resources":[]},'' @
     ''{"resource_states":[{"rsc_name":"r0","node_name":"alpha",'' @
     ''"vlm_states":[{"vlm_nr":0,"vlm_minor_nr":7,"has_disk":false}]}],'' @
     ''"resources":[{"name":"r0","node_name":"alpha"}]}]''\<close>

definition second_entry :: resList where
  "second_entry =
     [\<lparr>ResourceStates = [], Resources = []\<rparr>,
      \<lparr>ResourceStates = [rsc_state ''r0'' ''alpha'' [vol 0 7 False]],
       Resources = [rsc ''r0'' ''alpha'']\<rparr>]"

definition json_two_nodes :: string where
  \<open>json_two_nodes =
     ''[{"resource_states":['' @
     ''{"rsc_name":"r0","node_name":"alpha",'' @
     ''"vlm_states":[{"vlm_nr":0,"vlm_minor_nr":7,"has_disk":true}]},'' @
     ''{"rsc_name":"r0","node_name":"beta",'' @
     ''"vlm_states":[{"vlm_nr":0,"vlm_minor_nr":9,"has_disk":false}]}],'' @
     ''"resources":[{"name":"r0","node_name":"alpha"},{"name":"r0","node_name":"beta"}]}]''\<close>

definition two_nodes :: resList where
  "two_nodes =
     [\<lparr>ResourceStates =
         [rsc_state ''r0'' ''alpha'' [vol 0 7 True], rsc_state ''r0'' ''beta'' [vol 0 9 False]],
       Resources = [rsc ''r0'' ''alpha'', rsc ''r0'' ''beta'']\<rparr>]"

definition json_two_volumes :: string where
  \<open>json_two_volumes =
     ''[{"resource_states":[{"rsc_name":"r0","node_name":"alpha",'' @
     ''"vlm_states":[{"vlm_nr":0,"vlm_minor_nr":7,"has_disk":true},'' @
     ''{"vlm_nr":1,"vlm_minor_nr":8,"has_disk":true}]}],'' @
     ''"resources":[{"name":"r0","node_name":"alpha"}]}]''\<close>

definition two_volumes :: resList where
  "two_volumes =
     [\<lparr>ResourceStates = [rsc_state ''r0'' ''alpha'' [vol 0 7 True, vol 1 8 True]],
       Resources = [rsc ''r0'' ''alpha'']\<rparr>]"

definition json_no_volume0 :: string where
  \<open>json_no_volume0 =
     ''[{"resource_states":[{"rsc_name":"r0","node_name":"alpha",'' @
     ''"vlm_states":[{"vlm_nr":1,"vlm_minor_nr":8,"has_disk":true}]}],'' @
     ''"resources":[{"name":"r0","node_name":"alpha"}]}]''\<close>

definition no_volume0 :: resList where
  "no_volume0 =
     [\<lparr>ResourceStates = [rsc_state ''r0'' ''alpha'' [vol 1 8 True]],
       Resources = [rsc ''r0'' ''alpha'']\<rparr>]"

definition example_Unmarshal_resList :: "string \<Rightarrow> string + resList" where
  "example_Unmarshal_resList s =
     (if s = json_empty_array then Inr []
      else if s = json_second_entry then Inr second_entry
      else if s = json_two_nodes then Inr two_nodes
      else if s = json_two_volumes then Inr two_volumes
      else if s = json_no_volume0 then Inr no_volume0
      else Inl ''invalid character'')"

text \<open>
  A host whose commands do not change the world (\<open>unit\<close>): \<open>run\<close> gives each command's
  output and error, \<open>stat\<close> the error of \<open>os.Lstat\<close>. No status reply is decodable.
\<close>

definition static_host ::
  "(string list \<Rightarrow> string \<times> string option) \<Rightarrow> (string \<Rightarrow> string option) \<Rightarrow> loopvar \<Rightarrow> unit host" where
  "static_host run stat lv =
     \<lparr>CombinedOutput = (\<lambda>argv w. (run argv, w)),
      Lstat = (\<lambda>path w. stat path),
      Unmarshal_resList = example_Unmarshal_resList,
      Unmarshal_returnStatuses = (\<lambda>s. Inl ''unexpected end of JSON input''),
      loopvar = lv\<rparr>"

definition start :: "unit sys" where
  "start = \<lparr>world = (), issued = []\<rparr>"

definition resource_r0 :: Resource where
  "resource_r0 =
     zero_Resource\<lparr>Resource.Name := ''r0'', NodeList := [''alpha''], ClientList := [''beta''],
       StoragePool := ''pool''\<rparr>"

definition resource_r1 :: Resource where
  "resource_r1 = resource_r0\<lparr>Resource.Name := ''r1''\<rparr>"

text \<open>
  \<open>listing_host out lv\<close> answers \<open>linstor -m ls-rsc\<close> with \<open>out\<close> and fails every other
  command; every path exists. \<open>probe_host out\<close> answers \<open>blkid\<close> with \<open>out\<close> (and, as
  \<open>blkid\<close> does, with an error when it prints nothing); every other command succeeds.
\<close>

definition listing_host :: "string \<Rightarrow> loopvar \<Rightarrow> unit host" where
  "listing_host out lv =
     static_host (\<lambda>argv. if argv = ls_rsc then (out, None) else ([], Some ''exit status 10''))
       (\<lambda>path. None) lv"

definition probe_host :: "string \<Rightarrow> unit host" where
  "probe_host out =
     static_host
       (\<lambda>argv. if take 1 argv = [''blkid'']
          then (out, if out = [] then Some ''exit status 2'' else None)
          else ([], None))
       (\<lambda>path. None) PerLoop"

text \<open>\<open>failing_host\<close>: every command fails and prints nothing.\<close>

definition failing_host :: "unit host" where
  "failing_host = static_host (\<lambda>argv. ([], Some ''exit status 1'')) (\<lambda>path. None) PerLoop"

definition ext4_util :: FSUtil where
  "ext4_util = \<lparr>Resource = Some resource_r0, FSType = ''ext4''\<rparr>"

definition untyped_util :: FSUtil where
  "untyped_util = \<lparr>Resource = Some resource_r0, FSType = []\<rparr>"

section \<open>Properties of the status validation\<close>

lemma bit_3_uint64: "bit (3 :: uint64) k \<longleftrightarrow> k < 2"
proof -
  have e: "(mask 2 :: uint64) = 3" by (simp add: mask_eq_exp_minus_1)
  have "bit (mask 2 :: uint64) k \<longleftrightarrow> k < 2" by (auto simp add: bit_mask_iff)
  then show ?thesis by (simp only: e)
qed

lemma bit_top_two: "bit (0xC000000000000000 :: uint64) n \<longleftrightarrow> n = 62 \<or> n = 63"
proof -
  have m: "push_bit 62 (3 :: uint64) = 0xC000000000000000" by simp
  have "bit (push_bit 62 (3 :: uint64)) n \<longleftrightarrow> n = 62 \<or> n = 63"
    by (simp only: bit_push_bit_iff bit_3_uint64) (auto simp: possible_bit_word)
  then show ?thesis by (simp only: m)
qed

lemma and_top_two:
  "(r :: uint64) AND 0xC000000000000000 = 0 \<longleftrightarrow> \<not> bit r 63 \<and> \<not> bit r 62"
proof -
  have "(r AND 0xC000000000000000 = 0) \<longleftrightarrow>
        (\<forall>n. \<not> (bit r n \<and> bit (0xC000000000000000 :: uint64) n))"
    by (simp add: bit_eq_iff bit_and_iff)
  also have "\<dots> \<longleftrightarrow> \<not> bit r 63 \<and> \<not> bit r 62"
    by (simp only: bit_top_two) auto
  finally show ?thesis .
qed

lemma masks_or: "maskError OR maskWarn OR maskInfo = 0xC000000000000000"
  by (simp add: maskError_def maskWarn_def maskInfo_def)

text \<open>
  C1, as stated, fails: the three masks of \<open>linstorSuccess\<close> are \<open>0xC000000000000000\<close>,
  \<open>0x8000000000000000\<close> and \<open>0x4000000000000000\<close>, which cover bits 63 and 62 only.
  A return code with bit 61 alone set is a success for the code, while it has one of the
  three bits 63, 62, 61 that the claim names.
\<close>

theorem linstorSuccess_bit61_counterexample:
  "linstorSuccess (push_bit 61 1) \<and>
   (push_bit 61 1 :: uint64) AND (push_bit 63 1 OR push_bit 62 1 OR push_bit 61 1) \<noteq> 0"
  by (simp add: linstorSuccess_def masks_or)

text \<open>
  C1, amended: for every 64-bit return code \<open>r\<close>, \<open>linstorSuccess r\<close> is true if and only
  if \<open>r AND 0xC000000000000000 = 0\<close> (the three masks or-ed together), that is, if and only
  if bit 63 and bit 62 of \<open>r\<close> are both clear. Bit 61 is not looked at.
\<close>

theorem linstorSuccess_top_two_bits:
  "linstorSuccess r = (r AND 0xC000000000000000 = 0) \<and>
   linstorSuccess r = (\<not> bit r 63 \<and> \<not> bit r 62)"
  by (simp only: linstorSuccess_def masks_or and_top_two)

theorem linstorSuccess_top_two_bits_witness:
  "linstorSuccess 0 \<and> \<not> linstorSuccess 0x8000000000000000 \<and>
   \<not> linstorSuccess 0x4000000000000000 \<and> linstorSuccess 0x2000000000000000 \<and>
   \<not> linstorSuccess 0xE000000000000000"
  using linstorSuccess_top_two_bits [of 0] linstorSuccess_top_two_bits [of "0x8000000000000000"]
    linstorSuccess_top_two_bits [of "0x4000000000000000"]
    linstorSuccess_top_two_bits [of "0x2000000000000000"]
    linstorSuccess_top_two_bits [of "0xE000000000000000"]
  by simp

section \<open>Properties of the resource listing\<close>

lemma doResExists_range_iff:
  "doResExists_range rs n = (\<exists>r\<in>set rs. resInfo.Name r = n)"
  by (induction rs) auto

lemma doResOnNode_range_iff:
  "doResOnNode_range rs n d = (\<exists>r\<in>set rs. resInfo.Name r = n \<and> resInfo.NodeName r = d)"
  by (induction rs) auto

lemma doIsClient_VlmStates_find:
  "doIsClient_VlmStates vs = map_option (\<lambda>v. \<not> HasDisk v) (find (\<lambda>v. volInfo.VlmNr v = 0) vs)"
  by (induction vs) auto

lemma find_append_cases:
  "find P (xs @ ys) = (case find P xs of None \<Rightarrow> find P ys | Some x \<Rightarrow> Some x)"
  by (induction xs) auto

lemma doIsClient_range_find:
  "doIsClient_range r states nodeName =
     (case find (\<lambda>v. volInfo.VlmNr v = 0)
             (concat (map VlmStates
                (filter (\<lambda>res. Resource.Name r = RscName res \<and> nodeName = resState.NodeName res) states))) of
        None \<Rightarrow> False
      | Some v \<Rightarrow> \<not> HasDisk v)"
  by (induction states)
     (auto simp: doIsClient_VlmStates_find find_append_cases split: option.splits)

lemma listing_host_simps:
  "CombinedOutput (listing_host out lv) ls_rsc w = ((out, None), w)"
  "Unmarshal_resList (listing_host out lv) = example_Unmarshal_resList"
  "Lstat (listing_host out lv) path w = None"
  "loopvar (listing_host out lv) = lv"
  by (simp_all add: listing_host_def static_host_def)

lemma unmarshal_examples:
  "example_Unmarshal_resList json_empty_array = Inr []"
  "example_Unmarshal_resList json_second_entry = Inr second_entry"
  "example_Unmarshal_resList json_two_nodes = Inr two_nodes"
  "example_Unmarshal_resList json_two_volumes = Inr two_volumes"
  "example_Unmarshal_resList json_no_volume0 = Inr no_volume0"
  by (simp_all add: example_Unmarshal_resList_def json_empty_array_def json_second_entry_def
      json_two_nodes_def json_two_volumes_def json_no_volume0_def)

text \<open>
  C3, as stated, fails on two inputs. The code reads the first element of the decoded
  list only: when the name stands among the resource-definition records of the second
  element, \<open>doResExists\<close> answers false. And when the input decodes to the empty list
  (the text \<open>[]\<close>), \<open>resources[0]\<close> panics: the call returns neither false nor an error.
\<close>

theorem doResExists_counterexample:
  "example_Unmarshal_resList json_second_entry = Inr second_entry \<and>
   ''r0'' \<in> set (map resInfo.Name (concat (map Resources second_entry))) \<and>
   doResExists example_Unmarshal_resList ''r0'' json_second_entry = Ok False \<and>
   example_Unmarshal_resList json_empty_array = Inr [] \<and>
   doResExists example_Unmarshal_resList ''r0'' json_empty_array = Panic"
  by (simp add: doResExists_def example_Unmarshal_resList_def json_empty_array_def
      json_second_entry_def second_entry_def rsc_def zero_resInfo_def)

text \<open>
  C3, amended: for every resource name and every input, when the input is not decodable
  \<open>doResExists\<close> returns the decode error (\<open>couldn't Unmarshal\<close>), not false; and when
  the input decodes to a list that is not empty, it returns true if and only if the name
  is the \<open>Name\<close> of one of the \<open>Resources\<close> of the list's first element (so false,
  with no error, when that element has no such record). Nothing is said of an input
  that decodes to the empty list.
\<close>

theorem doResExists_first_entry:
  "(unmarshal resInfo = Inl err \<longrightarrow>
      doResExists unmarshal resourceName resInfo = Err (CouldntUnmarshal resInfo err)) \<and>
   (unmarshal resInfo = Inr (entry # rest) \<longrightarrow>
      doResExists unmarshal resourceName resInfo =
        Ok (\<exists>r\<in>set (Resources entry). resInfo.Name r = resourceName))"
  by (simp add: doResExists_def doResExists_range_iff)

theorem doResExists_first_entry_witness:
  "doResExists example_Unmarshal_resList ''r0'' ''not json'' =
     Err (CouldntUnmarshal ''not json'' ''invalid character'') \<and>
   doResExists example_Unmarshal_resList ''r0'' json_two_nodes = Ok True \<and>
   doResExists example_Unmarshal_resList ''r1'' json_two_nodes = Ok False"
proof -
  have a: "example_Unmarshal_resList ''not json'' = Inl ''invalid character''"
    by (simp add: example_Unmarshal_resList_def json_empty_array_def json_second_entry_def
        json_two_nodes_def json_two_volumes_def json_no_volume0_def)
  have b: "example_Unmarshal_resList json_two_nodes =
      Inr (\<lparr>ResourceStates =
         [rsc_state ''r0'' ''alpha'' [vol 0 7 True], rsc_state ''r0'' ''beta'' [vol 0 9 False]],
       Resources = [rsc ''r0'' ''alpha'', rsc ''r0'' ''beta'']\<rparr> # [])"
    by (simp add: example_Unmarshal_resList_def json_empty_array_def json_second_entry_def
        json_two_nodes_def two_nodes_def)
  show ?thesis
    using doResExists_first_entry [where unmarshal = example_Unmarshal_resList
        and resInfo = "''not json''" and resourceName = "''r0''", THEN conjunct1, rule_format, OF a]
      doResExists_first_entry [where unmarshal = example_Unmarshal_resList
        and resInfo = json_two_nodes and resourceName = "''r0''", THEN conjunct2, rule_format, OF b]
      doResExists_first_entry [where unmarshal = example_Unmarshal_resList
        and resInfo = json_two_nodes and resourceName = "''r1''", THEN conjunct2, rule_format, OF b]
    by (simp add: rsc_def zero_resInfo_def)
qed

text \<open>
  C10: for every decoded listing, resource name and node name, \<open>doResOnNode\<close> returns
  true only when one and the same resource-definition record (of the first element) has
  both the name and the node; and when every record with the name is on another node,
  it returns false.
\<close>

theorem doResOnNode_both_match:
  "(doResOnNode l resName nodeName = Ok True \<longrightarrow>
      l \<noteq> [] \<and>
      (\<exists>res\<in>set (Resources (hd l)). resInfo.Name res = resName \<and> resInfo.NodeName res = nodeName)) \<and>
   ((\<forall>res\<in>set (Resources entry). resInfo.Name res = resName \<longrightarrow> resInfo.NodeName res \<noteq> nodeName) \<longrightarrow>
      doResOnNode (entry # rest) resName nodeName = Ok False)"
  by (auto simp: doResOnNode_def doResOnNode_range_iff split: list.splits)

theorem doResOnNode_both_match_witness:
  "doResOnNode two_nodes ''r0'' ''beta'' = Ok True \<and>
   (\<exists>res\<in>set (Resources (hd two_nodes)). resInfo.Name res = ''r0'' \<and> resInfo.NodeName res = ''beta'') \<and>
   (\<exists>res\<in>set (Resources (hd two_nodes)). resInfo.Name res = ''r0'' \<and> resInfo.NodeName res \<noteq> ''gamma'') \<and>
   doResOnNode two_nodes ''r0'' ''gamma'' = Ok False"
proof -
  have t: "doResOnNode two_nodes ''r0'' ''beta'' = Ok True"
    by (simp add: doResOnNode_def two_nodes_def rsc_def zero_resInfo_def)
  have n: "\<forall>res\<in>set (Resources (hd two_nodes)).
             resInfo.Name res = ''r0'' \<longrightarrow> resInfo.NodeName res \<noteq> ''gamma''"
    by (simp add: two_nodes_def rsc_def zero_resInfo_def)
  have c: "hd two_nodes # [] = two_nodes"
    by (simp add: two_nodes_def)
  have 1: "\<exists>res\<in>set (Resources (hd two_nodes)).
             resInfo.Name res = ''r0'' \<and> resInfo.NodeName res = ''beta''"
    using doResOnNode_both_match [where l = two_nodes and resName = "''r0''"
        and nodeName = "''beta''", THEN conjunct1, rule_format, OF t]
    by simp
  have 2: "doResOnNode two_nodes ''r0'' ''gamma'' = Ok False"
    using doResOnNode_both_match [where entry = "hd two_nodes" and rest = "[]"
        and resName = "''r0''" and nodeName = "''gamma''", THEN conjunct2, THEN mp, OF n]
    by (simp only: c)
  have 3: "\<exists>res\<in>set (Resources (hd two_nodes)).
             resInfo.Name res = ''r0'' \<and> resInfo.NodeName res \<noteq> ''gamma''"
    by (simp add: two_nodes_def rsc_def zero_resInfo_def)
  show ?thesis using t 1 2 3 by blast
qed

text \<open>
  C9, as stated, fails on two inputs. The code reads the first element of the decoded
  list only: when the resource-state record for the name and the node, with a volume 0
  that has no disk, stands in the second element, \<open>doIsClient\<close> answers false. And on
  the empty list \<open>list[0]\<close> panics, where the claim has it return false.
\<close>

theorem doIsClient_counterexample:
  "rsc_state ''r0'' ''alpha'' [vol 0 7 False] \<in> set (ResourceStates (second_entry ! 1)) \<and>
   RscName (rsc_state ''r0'' ''alpha'' [vol 0 7 False]) = Resource.Name resource_r0 \<and>
   resState.NodeName (rsc_state ''r0'' ''alpha'' [vol 0 7 False]) = ''alpha'' \<and>
   VlmStates (rsc_state ''r0'' ''alpha'' [vol 0 7 False]) = [vol 0 7 False] \<and>
   volInfo.VlmNr (vol 0 7 False) = 0 \<and>
   \<not> HasDisk (vol 0 7 False) \<and>
   doIsClient resource_r0 second_entry ''alpha'' = Ok False \<and>
   doIsClient resource_r0 [] ''alpha'' = Panic"
  by (simp add: doIsClient_def second_entry_def resource_r0_def zero_Resource_def rsc_state_def
      zero_resState_def vol_def zero_volInfo_def)

text \<open>
  C9, amended: for every resource, node name and decoded listing that is not empty,
  \<open>doIsClient\<close> looks at the resource-state records of the first element that have both
  the resource's name and the node, in order, and at the first entry with volume number
  0 among their volume states: it returns true when that entry has \<open>HasDisk = false\<close>,
  false when it has \<open>HasDisk = true\<close>, and false (not an error) when there is no such
  record or no such volume. Nothing is said of the empty list.
\<close>

theorem doIsClient_first_volume0:
  "doIsClient r (entry # rest) nodeName =
     Ok (case find (\<lambda>v. volInfo.VlmNr v = 0)
               (concat (map VlmStates
                  (filter (\<lambda>res. Resource.Name r = RscName res \<and> nodeName = resState.NodeName res)
                     (ResourceStates entry)))) of
           None \<Rightarrow> False
         | Some v \<Rightarrow> \<not> HasDisk v)"
  by (simp add: doIsClient_def doIsClient_range_find)

theorem doIsClient_first_volume0_witness:
  "doIsClient resource_r0 two_nodes ''beta'' = Ok True \<and>
   doIsClient resource_r0 two_nodes ''alpha'' = Ok False \<and>
   doIsClient resource_r0 two_nodes ''gamma'' = Ok False"
  using doIsClient_first_volume0 [where r = resource_r0 and entry = "hd two_nodes" and rest = "[]"
      and nodeName = "''beta''"]
    doIsClient_first_volume0 [where r = resource_r0 and entry = "hd two_nodes" and rest = "[]"
      and nodeName = "''alpha''"]
    doIsClient_first_volume0 [where r = resource_r0 and entry = "hd two_nodes" and rest = "[]"
      and nodeName = "''gamma''"]
  by (simp add: two_nodes_def resource_r0_def zero_Resource_def rsc_state_def zero_resState_def
      vol_def zero_volInfo_def)

text \<open>
  C5: when the listing decodes to the empty top-level array, \<open>doResExists\<close>,
  \<open>doResOnNode\<close>, \<open>doIsClient\<close> and \<open>getDevPath\<close> (and with them \<open>Exists\<close>, \<open>OnNode\<close>
  and \<open>IsClient\<close>) read element 0 of the list with no guard and panic: none of them
  returns a value or an error on such an input.
\<close>

theorem empty_listing_panics:
  "(unmarshal resInfo = Inr [] \<longrightarrow> doResExists unmarshal resourceName resInfo = Panic) \<and>
   doResOnNode [] resName nodeName = Panic \<and>
   doIsClient r [] nodeName = Panic \<and>
   (CombinedOutput h ls_rsc (world s) = ((out, None), w') \<and> Unmarshal_resList h out = Inr [] \<longrightarrow>
      fst (getDevPath h r s) = Panic \<and> fst (Exists h r s) = Panic \<and>
      fst (OnNode h r nodeName s) = Panic \<and> fst (IsClient h r nodeName s) = Panic)"
  by (simp add: doResExists_def doResOnNode_def doIsClient_def getDevPath_def Exists_def
      OnNode_def IsClient_def exec_Command_def)

theorem empty_listing_panics_witness:
  "doResExists example_Unmarshal_resList ''r0'' json_empty_array = Panic \<and>
   fst (getDevPath (listing_host json_empty_array PerLoop) resource_r0 start) = Panic \<and>
   fst (Exists (listing_host json_empty_array PerLoop) resource_r0 start) = Panic \<and>
   fst (OnNode (listing_host json_empty_array PerLoop) resource_r0 ''alpha'' start) = Panic \<and>
   fst (IsClient (listing_host json_empty_array PerLoop) resource_r0 ''alpha'' start) = Panic"
proof -
  have a: "example_Unmarshal_resList json_empty_array = Inr []"
    by (rule unmarshal_examples)
  have b: "CombinedOutput (listing_host json_empty_array PerLoop) ls_rsc (world start) =
      ((json_empty_array, None), ()) \<and>
     Unmarshal_resList (listing_host json_empty_array PerLoop) json_empty_array = Inr []"
    by (simp add: listing_host_simps a)
  show ?thesis
    using empty_listing_panics [where unmarshal = example_Unmarshal_resList
        and resInfo = json_empty_array and resourceName = "''r0''",
        THEN conjunct1, THEN mp, OF a]
      empty_listing_panics [where h = "listing_host json_empty_array PerLoop" and s = start
        and r = resource_r0 and nodeName = "''alpha''",
        THEN conjunct2, THEN conjunct2, THEN conjunct2, THEN mp, OF b]
    by simp
qed

section \<open>Properties of Assign\<close>

lemma OnNode_steady:
  assumes "CombinedOutput h ls_rsc (world s) = ((out, None), world s)"
    and "Unmarshal_resList h out = Inr l"
  shows "OnNode h r node s =
     (doResOnNode l (Resource.Name r) node, \<lparr>world = world s, issued = issued s @ [ls_rsc]\<rparr>)"
  using assms by (simp add: OnNode_def exec_Command_def)

lemma Exists_steady:
  assumes "CombinedOutput h ls_rsc (world s) = ((out, None), world s)"
  shows "Exists h r s =
     (doResExists (Unmarshal_resList h) (Resource.Name r) out,
      \<lparr>world = world s, issued = issued s @ [ls_rsc]\<rparr>)"
  using assms by (simp add: Exists_def exec_Command_def)

lemma Assign_range_all_present:
  assumes "CombinedOutput h ls_rsc w = ((out, None), w)"
    and "Unmarshal_resList h out = Inr l"
  shows "world s = w \<Longrightarrow> \<forall>node\<in>set nodes. doResOnNode l (Resource.Name r) node = Ok True \<Longrightarrow>
     Assign_range h r flags nodes s =
       (Ok (), \<lparr>world = w, issued = issued s @ replicate (length nodes) ls_rsc\<rparr>)"
proof (induction nodes arbitrary: s)
  case Nil
  then show ?case by simp
next
  case (Cons node rest)
  have on: "OnNode h r node s = (Ok True, \<lparr>world = w, issued = issued s @ [ls_rsc]\<rparr>)"
    using OnNode_steady [of h s out l r node] assms Cons.prems by simp
  have "Assign_range h r flags rest \<lparr>world = w, issued = issued s @ [ls_rsc]\<rparr> =
      (Ok (), \<lparr>world = w, issued = (issued s @ [ls_rsc]) @ replicate (length rest) ls_rsc\<rparr>)"
    using Cons.IH [of "\<lparr>world = w, issued = issued s @ [ls_rsc]\<rparr>"] Cons.prems by simp
  then show ?case
    using on by (simp add: replicate_app_Cons_same)
qed

lemma Exists_issued: "issued (snd (Exists h r s)) = issued s @ [ls_rsc]"
  by (simp add: Exists_def exec_Command_def split: prod.splits option.splits)

text \<open>
  C6, as stated, fails: \<open>Assign\<close> does not fail with \<open>No resource definition\<close> in every
  case where \<open>Exists\<close> does not return true. When the listing command itself fails,
  \<open>Exists\<close> returns an error, and \<open>Assign\<close> fails with \<open>Unable to determine if resource
  ... is defined\<close> around that error instead.
\<close>

theorem Assign_listing_failure_counterexample:
  "fst (Exists failing_host resource_r0 start) = Err (ExecError ''exit status 1'') \<and>
   fst (Exists failing_host resource_r0 start) \<noteq> Ok True \<and>
   Assign failing_host resource_r0 start =
     (Err (UnableToDetermineDefined ''r0'' (ExecError ''exit status 1'')),
      \<lparr>world = (), issued = [ls_rsc]\<rparr>) \<and>
   fst (Assign failing_host resource_r0 start) \<noteq> Err (NoResourceDefinition ''r0'')"
  by (simp add: Assign_def Exists_def exec_Command_def failing_host_def static_host_def
      start_def resource_r0_def zero_Resource_def)

text \<open>
  C6, amended: \<open>Assign\<close> first asks \<open>Exists\<close>. When \<open>Exists\<close> returns false, \<open>Assign\<close>
  fails at once with the error \<open>No resource definition for resource ...\<close>; when
  \<open>Exists\<close> returns an error (the listing command failed, or its output is not
  decodable), \<open>Assign\<close> fails at once with \<open>Unable to determine if resource ... is
  defined\<close> around that error; whenever \<open>Exists\<close> does not return true, \<open>Assign\<close> does
  not succeed and has issued the one listing query and no other command. And \<open>Assign\<close>
  is idempotent: when the listing query leaves the world as it is and its listing has
  the resource defined and present on every node of \<open>NodeList\<close> and of \<open>ClientList\<close>,
  \<open>Assign\<close> returns nil, and the commands it issued are listing queries only (one for
  \<open>Exists\<close>, one for each node): no \<open>create-resource\<close>.
\<close>

theorem Assign_precondition_idempotent:
  "(fst (Exists h r s) = Ok False \<longrightarrow>
      Assign h r s = (Err (NoResourceDefinition (Resource.Name r)), snd (Exists h r s))) \<and>
   (fst (Exists h r s) = Err err \<longrightarrow>
      Assign h r s =
        (Err (UnableToDetermineDefined (Resource.Name r) err), snd (Exists h r s))) \<and>
   (fst (Exists h r s) \<noteq> Ok True \<longrightarrow>
      fst (Assign h r s) \<noteq> Ok () \<and> issued (snd (Assign h r s)) = issued s @ [ls_rsc]) \<and>
   (CombinedOutput h ls_rsc (world s) = ((out, None), world s) \<and>
    Unmarshal_resList h out = Inr l \<and>
    doResExists (Unmarshal_resList h) (Resource.Name r) out = Ok True \<and>
    (\<forall>node\<in>set (NodeList r @ ClientList r). doResOnNode l (Resource.Name r) node = Ok True) \<longrightarrow>
      Assign h r s =
        (Ok (), \<lparr>world = world s,
                 issued = issued s @
                   replicate (1 + length (NodeList r) + length (ClientList r)) ls_rsc\<rparr>))"
proof -
  have A: "Assign h r s = (Err (NoResourceDefinition (Resource.Name r)), snd (Exists h r s))"
    if "fst (Exists h r s) = Ok False"
    using that by (cases "Exists h r s") (simp add: Assign_def)
  have E: "Assign h r s =
      (Err (UnableToDetermineDefined (Resource.Name r) err), snd (Exists h r s))"
    if "fst (Exists h r s) = Err err"
    using that by (cases "Exists h r s") (simp add: Assign_def)
  have B: "fst (Assign h r s) \<noteq> Ok () \<and> issued (snd (Assign h r s)) = issued s @ [ls_rsc]"
    if n: "fst (Exists h r s) \<noteq> Ok True"
  proof -
  obtain res t where e: "Exists h r s = (res, t)" by (cases "Exists h r s")
  have t: "issued t = issued s @ [ls_rsc]"
    using Exists_issued [of h r s] e by simp
    show ?thesis
    proof (cases res)
    case (Ok b)
    with n e have "b = False" by simp
    with Ok e t show ?thesis by (simp add: Assign_def)
  next
    case (Err x)
    with e t show ?thesis by (simp add: Assign_def)
  next
    case Panic
    with e t show ?thesis by (simp add: Assign_def)
  qed
  qed
  have C: "Assign h r s =
        (Ok (), \<lparr>world = world s,
                 issued = issued s @
                   replicate (1 + length (NodeList r) + length (ClientList r)) ls_rsc\<rparr>)"
    if a: "CombinedOutput h ls_rsc (world s) = ((out, None), world s) \<and>
    Unmarshal_resList h out = Inr l \<and>
    doResExists (Unmarshal_resList h) (Resource.Name r) out = Ok True \<and>
    (\<forall>node\<in>set (NodeList r @ ClientList r). doResOnNode l (Resource.Name r) node = Ok True)"
  proof -
  let ?w = "world s"
  let ?s1 = "\<lparr>world = ?w, issued = issued s @ [ls_rsc]\<rparr>"
  let ?s2 = "\<lparr>world = ?w, issued = issued ?s1 @ replicate (length (NodeList r)) ls_rsc\<rparr>"
  from a have c: "CombinedOutput h ls_rsc ?w = ((out, None), ?w)"
    and u: "Unmarshal_resList h out = Inr l" by blast+
  have e: "Exists h r s = (Ok True, ?s1)"
    using Exists_steady [OF c, of r] a by simp
  have n: "Assign_range h r [''-s'', StoragePool r] (NodeList r) ?s1 = (Ok (), ?s2)"
    using Assign_range_all_present [OF c u, of ?s1 "NodeList r" r] a by simp
  have k: "Assign_range h r [''--diskless''] (ClientList r) ?s2 =
      (Ok (), \<lparr>world = ?w, issued = issued ?s2 @ replicate (length (ClientList r)) ls_rsc\<rparr>)"
    using Assign_range_all_present [OF c u, of ?s2 "ClientList r" r] a by simp
  show ?thesis
    using e n k by (simp add: Assign_def replicate_add [symmetric] del: replicate_add)
  qed
  show ?thesis using A E B C by blast
qed

theorem Assign_precondition_idempotent_witness:
  "Assign (listing_host json_two_nodes PerLoop) resource_r1 start =
     (Err (NoResourceDefinition ''r1''), \<lparr>world = (), issued = [ls_rsc]\<rparr>) \<and>
   Assign (listing_host ''not json'' PerLoop) resource_r0 start =
     (Err (UnableToDetermineDefined ''r0'' (CouldntUnmarshal ''not json'' ''invalid character'')),
      \<lparr>world = (), issued = [ls_rsc]\<rparr>) \<and>
   fst (Assign (listing_host json_empty_array PerLoop) resource_r0 start) \<noteq> Ok () \<and>
   issued (snd (Assign (listing_host json_empty_array PerLoop) resource_r0 start)) = [ls_rsc] \<and>
   NodeList resource_r0 = [''alpha''] \<and> ClientList resource_r0 = [''beta''] \<and>
   Assign (listing_host json_two_nodes PerLoop) resource_r0 start =
     (Ok (), \<lparr>world = (), issued = [ls_rsc, ls_rsc, ls_rsc]\<rparr>)"
proof -
  let ?h = "listing_host json_two_nodes PerLoop"
  let ?g = "listing_host ''not json'' PerLoop"
  let ?e = "listing_host json_empty_array PerLoop"
  have e1: "Exists ?h resource_r1 start = (Ok False, \<lparr>world = (), issued = [ls_rsc]\<rparr>)"
    by (simp add: Exists_def exec_Command_def listing_host_simps doResExists_def
        unmarshal_examples two_nodes_def rsc_def zero_resInfo_def resource_r1_def resource_r0_def
        zero_Resource_def start_def)
  have p1: "fst (Exists ?h resource_r1 start) = Ok False"
    by (simp add: e1)
  have u: "example_Unmarshal_resList ''not json'' = Inl ''invalid character''"
    by (simp add: example_Unmarshal_resList_def json_empty_array_def json_second_entry_def
        json_two_nodes_def json_two_volumes_def json_no_volume0_def)
  have e2: "Exists ?g resource_r0 start =
      (Err (CouldntUnmarshal ''not json'' ''invalid character''),
       \<lparr>world = (), issued = [ls_rsc]\<rparr>)"
    by (simp add: Exists_def exec_Command_def listing_host_simps doResExists_def u start_def)
  have p2: "fst (Exists ?g resource_r0 start) =
      Err (CouldntUnmarshal ''not json'' ''invalid character'')"
    by (simp add: e2)
  have e3: "Exists ?e resource_r0 start = (Panic, \<lparr>world = (), issued = [ls_rsc]\<rparr>)"
    by (simp add: Exists_def exec_Command_def listing_host_simps doResExists_def
        unmarshal_examples start_def)
  have p3: "fst (Exists ?e resource_r0 start) \<noteq> Ok True"
    by (simp add: e3)
  have p4: "CombinedOutput ?h ls_rsc (world start) = ((json_two_nodes, None), world start) \<and>
    Unmarshal_resList ?h json_two_nodes = Inr two_nodes \<and>
    doResExists (Unmarshal_resList ?h) (Resource.Name resource_r0) json_two_nodes = Ok True \<and>
    (\<forall>node\<in>set (NodeList resource_r0 @ ClientList resource_r0).
        doResOnNode two_nodes (Resource.Name resource_r0) node = Ok True)"
    by (simp add: listing_host_simps unmarshal_examples doResExists_def doResOnNode_def
        two_nodes_def rsc_def zero_resInfo_def resource_r0_def zero_Resource_def)
  have n1: "Resource.Name resource_r1 = ''r1''"
    by (simp add: resource_r1_def)
  have n0: "Resource.Name resource_r0 = ''r0''"
    by (simp add: resource_r0_def)
  have l0: "NodeList resource_r0 = [''alpha''] \<and> ClientList resource_r0 = [''beta'']"
    by (simp add: resource_r0_def zero_Resource_def)
  have i0: "issued start = []"
    by (simp add: start_def)
  have r1: "Assign ?h resource_r1 start =
      (Err (NoResourceDefinition ''r1''), \<lparr>world = (), issued = [ls_rsc]\<rparr>)"
    using Assign_precondition_idempotent [where h = ?h and r = resource_r1 and s = start,
        THEN conjunct1, THEN mp, OF p1]
    by (simp only: e1 snd_conv n1)
  have r2: "Assign ?g resource_r0 start =
      (Err (UnableToDetermineDefined ''r0'' (CouldntUnmarshal ''not json'' ''invalid character'')),
       \<lparr>world = (), issued = [ls_rsc]\<rparr>)"
    using Assign_precondition_idempotent [where h = ?g and r = resource_r0 and s = start,
        THEN conjunct2, THEN conjunct1, THEN mp, OF p2]
    by (simp only: e2 snd_conv n0)
  have r3: "fst (Assign ?e resource_r0 start) \<noteq> Ok () \<and>
      issued (snd (Assign ?e resource_r0 start)) = [ls_rsc]"
    using Assign_precondition_idempotent [where h = ?e and r = resource_r0 and s = start,
        THEN conjunct2, THEN conjunct2, THEN conjunct1, THEN mp, OF p3]
    by (simp add: i0)
  have r0: "Assign ?h resource_r0 start =
      (Ok (), \<lparr>world = (), issued = [ls_rsc, ls_rsc, ls_rsc]\<rparr>)"
    using Assign_precondition_idempotent [where h = ?h and r = resource_r0 and s = start,
        THEN conjunct2, THEN conjunct2, THEN conjunct2, THEN mp, OF p4]
    by (simp add: l0 start_def numeral_3_eq_3)
  show ?thesis using r1 r2 r3 r0 l0 by simp
qed

section \<open>Properties of the file system probe and of safeFormat\<close>

lemma Split_scan_count:
  "length (Split_scan sep piece s) = Suc (length (filter (\<lambda>c. c = sep) s))"
  by (induction s arbitrary: piece) auto

lemma Split_scan_length: "length (Split_scan sep piece s) < 2 \<longleftrightarrow> sep \<notin> set s"
  by (auto simp: Split_scan_count filter_empty_conv)

lemma Split_scan_nth0: "Split_scan sep piece s ! 0 = piece @ takeWhile (\<lambda>c. c \<noteq> sep) s"
  by (induction s arbitrary: piece) auto

lemma Split_scan_nth1:
  "sep \<in> set s \<Longrightarrow>
   Split_scan sep piece s ! 1 = takeWhile (\<lambda>c. c \<noteq> sep) (tl (dropWhile (\<lambda>c. c \<noteq> sep) s))"
  by (induction s arbitrary: piece) (auto simp: Split_scan_nth0)

lemma Split_length: "length (Split t sep) < 2 \<longleftrightarrow> sep \<notin> set t"
  by (simp add: Split_def Split_scan_length)

lemma range_unparsable:
  "\<exists>t\<in>set f. CHR ''='' \<notin> set t \<Longrightarrow>
   doCheckFSType_range s f blockAttrs = Err (CouldntParseFilesystemData s)"
  by (induction f arbitrary: blockAttrs) (auto simp: Let_def Split_length)

lemma range_parsable:
  "\<forall>t\<in>set f. CHR ''='' \<in> set t \<Longrightarrow>
   \<exists>m. doCheckFSType_range s f blockAttrs = Ok m \<and>
       m k = (case find (\<lambda>t. Split t (CHR ''='') ! 0 = k) (rev f) of
                None \<Rightarrow> blockAttrs k
              | Some t \<Rightarrow> Some (Split t (CHR ''='') ! 1))"
proof (induction f arbitrary: blockAttrs)
  case Nil
  then show ?case by simp
next
  case (Cons pair rest)
  let ?p = "Split pair (CHR ''='')"
  from Cons.prems have len: "\<not> length ?p < 2" and rest: "\<forall>t\<in>set rest. CHR ''='' \<in> set t"
    by (simp_all add: Split_length)
  from Cons.IH [OF rest, of "blockAttrs(?p ! 0 \<mapsto> ?p ! 1)"]
  obtain m where m: "doCheckFSType_range s rest (blockAttrs(?p ! 0 \<mapsto> ?p ! 1)) = Ok m"
    and mk: "m k = (case find (\<lambda>t. Split t (CHR ''='') ! 0 = k) (rev rest) of
                None \<Rightarrow> (blockAttrs(?p ! 0 \<mapsto> ?p ! 1)) k
              | Some t \<Rightarrow> Some (Split t (CHR ''='') ! 1))"
    by blast
  have "doCheckFSType_range s (pair # rest) blockAttrs = Ok m"
    using len m by (simp add: Let_def)
  moreover have "m k = (case find (\<lambda>t. Split t (CHR ''='') ! 0 = k) (rev (pair # rest)) of
                None \<Rightarrow> blockAttrs k
              | Some t \<Rightarrow> Some (Split t (CHR ''='') ! 1))"
    using mk by (auto simp: find_append_cases split: option.splits)
  ultimately show ?case by blast
qed

lemma Split_ext4: "Split ''ID_FS_TYPE=ext4'' (CHR ''='') = [''ID_FS_TYPE'', ''ext4'']"
  by (simp add: Split_def)

text \<open>
  C8, as stated, fails: the map \<open>blockAttrs\<close> keeps the last value stored for a key, so
  an input with the token \<open>ID_FS_TYPE=ext4\<close> among other \<open>KEY=VALUE\<close> tokens yields
  \<open>xfs\<close> when a later token is \<open>ID_FS_TYPE=xfs\<close>.
\<close>

theorem doCheckFSType_counterexample:
  "Fields ''ID_FS_TYPE=ext4 ID_FS_TYPE=xfs'' = [''ID_FS_TYPE=ext4'', ''ID_FS_TYPE=xfs''] \<and>
   CHR ''='' \<in> set ''ID_FS_TYPE=ext4'' \<and> CHR ''='' \<in> set ''ID_FS_TYPE=xfs'' \<and>
   doCheckFSType ''ID_FS_TYPE=ext4 ID_FS_TYPE=xfs'' = Ok ''xfs''"
  by (simp add: doCheckFSType_def Fields_def isSpace_width_def asciiSpace_def Split_def FSKey_def)

text \<open>
  C8, amended: for every probe output \<open>s\<close>: when \<open>s\<close> has no field (as the empty string)
  \<open>doCheckFSType\<close> returns the empty string and no error; when a field has no \<open>=\<close> it
  returns the error \<open>couldn't parse filesystem data\<close>; when there are fields, each with
  an \<open>=\<close>, and none has the key \<open>ID_FS_TYPE\<close>, it returns the error \<open>couldn't find
  ID_FS_TYPE\<close>; and when every field has an \<open>=\<close> and \<open>ID_FS_TYPE=ext4\<close> is the last
  field with the key \<open>ID_FS_TYPE\<close>, it returns \<open>ext4\<close>.
\<close>

theorem doCheckFSType_cases:
  "doCheckFSType [] = Ok [] \<and>
   (Fields s = [] \<longrightarrow> doCheckFSType s = Ok []) \<and>
   ((\<exists>t\<in>set (Fields s). CHR ''='' \<notin> set t) \<longrightarrow>
      doCheckFSType s = Err (CouldntParseFilesystemData s)) \<and>
   (Fields s \<noteq> [] \<and>
    (\<forall>t\<in>set (Fields s). CHR ''='' \<in> set t \<and> Split t (CHR ''='') ! 0 \<noteq> FSKey) \<longrightarrow>
      doCheckFSType s = Err (CouldntFind FSKey)) \<and>
   (Fields s = before @ ''ID_FS_TYPE=ext4'' # after \<and>
    (\<forall>t\<in>set (before @ after). CHR ''='' \<in> set t) \<and>
    (\<forall>t\<in>set after. Split t (CHR ''='') ! 0 \<noteq> FSKey) \<longrightarrow>
      doCheckFSType s = Ok ''ext4'')"
proof (intro conjI impI)
  show "doCheckFSType [] = Ok []"
    by (simp add: doCheckFSType_def Fields_def)
next
  assume "Fields s = []"
  then show "doCheckFSType s = Ok []"
    by (simp add: doCheckFSType_def)
next
  assume bad: "\<exists>t\<in>set (Fields s). CHR ''='' \<notin> set t"
  then have "Fields s \<noteq> []" by auto
  with range_unparsable [OF bad, of s Map.empty]
  show "doCheckFSType s = Err (CouldntParseFilesystemData s)"
    by (simp add: doCheckFSType_def)
next
  assume a: "Fields s \<noteq> [] \<and>
    (\<forall>t\<in>set (Fields s). CHR ''='' \<in> set t \<and> Split t (CHR ''='') ! 0 \<noteq> FSKey)"
  then have wf: "\<forall>t\<in>set (Fields s). CHR ''='' \<in> set t" by blast
  from a have "find (\<lambda>t. Split t (CHR ''='') ! 0 = FSKey) (rev (Fields s)) = None"
    by (simp add: find_None_iff)
  with range_parsable [OF wf, of s Map.empty FSKey]
  obtain m where "doCheckFSType_range s (Fields s) Map.empty = Ok m" and "m FSKey = None"
    by auto
  with a show "doCheckFSType s = Err (CouldntFind FSKey)"
    by (simp add: doCheckFSType_def)
next
  assume a: "Fields s = before @ ''ID_FS_TYPE=ext4'' # after \<and>
    (\<forall>t\<in>set (before @ after). CHR ''='' \<in> set t) \<and>
    (\<forall>t\<in>set after. Split t (CHR ''='') ! 0 \<noteq> FSKey)"
  then have f: "Fields s = before @ ''ID_FS_TYPE=ext4'' # after" by blast
  from a have wf: "\<forall>t\<in>set (Fields s). CHR ''='' \<in> set t"
    by auto
  from a have "find (\<lambda>t. Split t (CHR ''='') ! 0 = FSKey) (rev after) = None"
    by (simp add: find_None_iff)
  then have "find (\<lambda>t. Split t (CHR ''='') ! 0 = FSKey) (rev (Fields s)) = Some ''ID_FS_TYPE=ext4''"
    by (simp add: f find_append_cases Split_ext4 FSKey_def)
  with range_parsable [OF wf, of s Map.empty FSKey]
  obtain m where "doCheckFSType_range s (Fields s) Map.empty = Ok m" and "m FSKey = Some ''ext4''"
    by (auto simp: Split_ext4)
  with f show "doCheckFSType s = Ok ''ext4''"
    by (simp add: doCheckFSType_def)
qed

theorem doCheckFSType_cases_witness:
  "doCheckFSType '' '' = Ok [] \<and>
   doCheckFSType ''ID_FS_UUID=0f3c ID_FS_TYPE'' =
     Err (CouldntParseFilesystemData ''ID_FS_UUID=0f3c ID_FS_TYPE'') \<and>
   doCheckFSType ''ID_FS_UUID=0f3c'' = Err (CouldntFind ''ID_FS_TYPE'') \<and>
   doCheckFSType ''ID_FS_TYPE=ext4 ID_FS_UUID=0f3c'' = Ok ''ext4''"
proof -
  have 1: "Fields '' '' = []"
    by (simp add: Fields_def isSpace_width_def asciiSpace_def)
  have 2: "\<exists>t\<in>set (Fields ''ID_FS_UUID=0f3c ID_FS_TYPE''). CHR ''='' \<notin> set t"
    by (simp add: Fields_def isSpace_width_def asciiSpace_def)
  have 3: "Fields ''ID_FS_UUID=0f3c'' \<noteq> [] \<and>
    (\<forall>t\<in>set (Fields ''ID_FS_UUID=0f3c''). CHR ''='' \<in> set t \<and> Split t (CHR ''='') ! 0 \<noteq> FSKey)"
    by (simp add: Fields_def isSpace_width_def asciiSpace_def Split_def FSKey_def)
  have 4: "Fields ''ID_FS_TYPE=ext4 ID_FS_UUID=0f3c'' = [] @ ''ID_FS_TYPE=ext4'' # [''ID_FS_UUID=0f3c''] \<and>
    (\<forall>t\<in>set ([] @ [''ID_FS_UUID=0f3c'']). CHR ''='' \<in> set t) \<and>
    (\<forall>t\<in>set [''ID_FS_UUID=0f3c'']. Split t (CHR ''='') ! 0 \<noteq> FSKey)"
    by (simp add: Fields_def isSpace_width_def asciiSpace_def Split_def FSKey_def)
  show ?thesis
    using doCheckFSType_cases [where s = "'' ''", THEN conjunct2, THEN conjunct1, THEN mp, OF 1]
      doCheckFSType_cases [where s = "''ID_FS_UUID=0f3c ID_FS_TYPE''",
        THEN conjunct2, THEN conjunct2, THEN conjunct1, THEN mp, OF 2]
      doCheckFSType_cases [where s = "''ID_FS_UUID=0f3c''",
        THEN conjunct2, THEN conjunct2, THEN conjunct2, THEN conjunct1, THEN mp, OF 3]
      doCheckFSType_cases [where s = "''ID_FS_TYPE=ext4 ID_FS_UUID=0f3c''" and before = "[]"
        and after = "[''ID_FS_UUID=0f3c'']",
        THEN conjunct2, THEN conjunct2, THEN conjunct2, THEN conjunct2, THEN mp, OF 4]
    by (simp add: FSKey_def)
qed

lemma probe_ext4: "doCheckFSType ''ID_FS_UUID=0f3c ID_FS_TYPE=ext4'' = Ok ''ext4''"
  by (simp add: doCheckFSType_def Fields_def isSpace_width_def asciiSpace_def Split_def FSKey_def)

lemma probe_xfs: "doCheckFSType ''ID_FS_TYPE=xfs'' = Ok ''xfs''"
  by (simp add: doCheckFSType_def Fields_def isSpace_width_def asciiSpace_def Split_def FSKey_def)

lemma probe_nothing: "doCheckFSType [] = Ok []"
  by (simp add: doCheckFSType_def Fields_def)

lemma checkFSType_probe_host:
  "checkFSType (probe_host out) path start =
     (doCheckFSType out, \<lparr>world = (), issued = [blkid path]\<rparr>)"
  by (simp add: checkFSType_def exec_Command_def probe_host_def static_host_def start_def blkid_def)

text \<open>
  C2, as stated, fails: when the probed type is the empty string and the desired type is
  the empty string too, the two are equal and \<open>safeFormat\<close> returns nil without
  invoking \<open>mkfs\<close>, where the claim's second clause has it invoke the format command.
\<close>

theorem safeFormat_counterexample:
  "fst (checkFSType (probe_host []) ''/dev/drbd7'' start) = Ok [] \<and>
   FSType untyped_util = [] \<and>
   safeFormat (probe_host []) untyped_util ''/dev/drbd7'' start =
     (Ok (), \<lparr>world = (), issued = [[''blkid'', ''-o'', ''udev'', ''/dev/drbd7'']]\<rparr>)"
  by (simp add: safeFormat_def checkFSType_probe_host probe_nothing untyped_util_def blkid_def)

text \<open>
  C2, amended: for every device path and desired type, when the probe returns a type:
  \<open>safeFormat\<close> has issued the \<open>blkid\<close> command; if the probed type equals the desired
  type it returns nil and has issued nothing else; if the probed type is the empty string
  and the desired type is not, it issues \<open>mkfs -t\<close> with the desired type and the path
  next (and returns nil, or the error \<open>couldn't create ... filesystem\<close> when \<open>mkfs\<close>
  fails); if the probed type is not empty and differs from the desired type it returns
  the error \<open>... refusing to overwrite ...\<close> and has issued nothing but \<open>blkid\<close>.
\<close>

theorem safeFormat_cases:
  "checkFSType h path s = (Ok deviceFS, t) \<longrightarrow>
     issued t = issued s @ [blkid path] \<and>
     (deviceFS = FSType f \<longrightarrow> safeFormat h f path s = (Ok (), t)) \<and>
     (deviceFS = [] \<and> FSType f \<noteq> [] \<longrightarrow>
        issued (snd (safeFormat h f path s)) = issued s @ [blkid path, mkfs (FSType f) path] \<and>
        fst (safeFormat h f path s) =
          (case CombinedOutput h (mkfs (FSType f) path) (world t) of
             ((out, None), w) \<Rightarrow> Ok ()
           | ((out, Some err), w) \<Rightarrow> Err (CouldntCreateFilesystem (FSType f) err out))) \<and>
     (deviceFS \<noteq> [] \<and> deviceFS \<noteq> FSType f \<longrightarrow>
        safeFormat h f path s = (Err (RefusingToOverwrite path deviceFS (FSType f)), t))"
  by (auto simp: safeFormat_def checkFSType_def exec_Command_def split: prod.splits option.splits)

theorem safeFormat_cases_witness:
  "safeFormat (probe_host ''ID_FS_UUID=0f3c ID_FS_TYPE=ext4'') ext4_util ''/dev/drbd7'' start =
     (Ok (), \<lparr>world = (), issued = [blkid ''/dev/drbd7'']\<rparr>) \<and>
   fst (safeFormat (probe_host []) ext4_util ''/dev/drbd7'' start) = Ok () \<and>
   issued (snd (safeFormat (probe_host []) ext4_util ''/dev/drbd7'' start)) =
     [[''blkid'', ''-o'', ''udev'', ''/dev/drbd7''], [''mkfs'', ''-t'', ''ext4'', ''/dev/drbd7'']] \<and>
   safeFormat (probe_host ''ID_FS_TYPE=xfs'') ext4_util ''/dev/drbd7'' start =
     (Err (RefusingToOverwrite ''/dev/drbd7'' ''xfs'' ''ext4''),
      \<lparr>world = (), issued = [blkid ''/dev/drbd7'']\<rparr>)"
proof -
  have a: "checkFSType (probe_host ''ID_FS_UUID=0f3c ID_FS_TYPE=ext4'') ''/dev/drbd7'' start =
      (Ok ''ext4'', \<lparr>world = (), issued = [blkid ''/dev/drbd7'']\<rparr>)"
    by (simp only: checkFSType_probe_host probe_ext4)
  have b: "checkFSType (probe_host []) ''/dev/drbd7'' start =
      (Ok [], \<lparr>world = (), issued = [blkid ''/dev/drbd7'']\<rparr>)"
    by (simp only: checkFSType_probe_host probe_nothing)
  have c: "checkFSType (probe_host ''ID_FS_TYPE=xfs'') ''/dev/drbd7'' start =
      (Ok ''xfs'', \<lparr>world = (), issued = [blkid ''/dev/drbd7'']\<rparr>)"
    by (simp only: checkFSType_probe_host probe_xfs)
  show ?thesis
    using safeFormat_cases [where f = ext4_util, THEN mp, OF a]
      safeFormat_cases [where f = ext4_util, THEN mp, OF b]
      safeFormat_cases [where f = ext4_util, THEN mp, OF c]
    by (simp add: ext4_util_def start_def blkid_def mkfs_def probe_host_def static_host_def)
qed

section \<open>Properties of getDevPath\<close>

text \<open>
  What the two loops leave in the cell that \<open>vol\<close> points to. With one variable for the
  loop, a run of the inner loop that meets a volume number 0 leaves \<open>vol\<close> pointing to
  the loop's variable, which holds the last element of the list at the end; with one
  variable for each iteration, \<open>vol\<close> points to the last element with volume number 0.
\<close>

lemma VlmStates_PerLoop:
  "getDevPath_VlmStates PerLoop a vs (store, ptr) =
     ((if vs = [] then store else store[a := last vs]),
      (if \<exists>v\<in>set vs. volInfo.VlmNr v = 0 then a else ptr))"
  by (induction vs arbitrary: store ptr) (auto simp: Let_def)

lemma VlmStates_PerIteration:
  "\<exists>ptr'. getDevPath_VlmStates PerIteration (length pre) vs (pre @ [c], ptr) =
            (pre @ (if vs = [] then [c] else vs @ [zero_volInfo]), ptr') \<and>
          ((\<forall>v\<in>set vs. volInfo.VlmNr v \<noteq> 0) \<longrightarrow> ptr' = ptr) \<and>
          ((\<exists>v\<in>set vs. volInfo.VlmNr v = 0) \<longrightarrow>
             length pre \<le> ptr' \<and> ptr' < length pre + length vs \<and>
             (pre @ vs) ! ptr' = last (filter (\<lambda>v. volInfo.VlmNr v = 0) vs))"
proof (induction vs arbitrary: pre c ptr)
  case Nil
  then show ?case by simp
next
  case (Cons x rest)
  let ?ptr1 = "if volInfo.VlmNr x = 0 then length pre else ptr"
  from Cons.IH [of "pre @ [x]" zero_volInfo ?ptr1]
  obtain ptr' where
    run: "getDevPath_VlmStates PerIteration (length (pre @ [x])) rest ((pre @ [x]) @ [zero_volInfo], ?ptr1) =
            ((pre @ [x]) @ (if rest = [] then [zero_volInfo] else rest @ [zero_volInfo]), ptr')"
    and none: "(\<forall>v\<in>set rest. volInfo.VlmNr v \<noteq> 0) \<longrightarrow> ptr' = ?ptr1"
    and some: "(\<exists>v\<in>set rest. volInfo.VlmNr v = 0) \<longrightarrow>
             length (pre @ [x]) \<le> ptr' \<and> ptr' < length (pre @ [x]) + length rest \<and>
             ((pre @ [x]) @ rest) ! ptr' = last (filter (\<lambda>v. volInfo.VlmNr v = 0) rest)"
    by blast
  have step: "getDevPath_VlmStates PerIteration (length pre) (x # rest) (pre @ [c], ptr) =
      (pre @ (x # rest) @ [zero_volInfo], ptr')"
    using run by (simp add: Let_def)
  have a: "(\<forall>v\<in>set (x # rest). volInfo.VlmNr v \<noteq> 0) \<longrightarrow> ptr' = ptr"
    using none by simp
  have b: "(\<exists>v\<in>set (x # rest). volInfo.VlmNr v = 0) \<longrightarrow>
             length pre \<le> ptr' \<and> ptr' < length pre + length (x # rest) \<and>
             (pre @ x # rest) ! ptr' = last (filter (\<lambda>v. volInfo.VlmNr v = 0) (x # rest))"
  proof (cases "\<exists>v\<in>set rest. volInfo.VlmNr v = 0")
    case True
    then have "filter (\<lambda>v. volInfo.VlmNr v = 0) rest \<noteq> []"
      by (simp add: filter_empty_conv)
    with some True show ?thesis by auto
  next
    case False
    then have f: "filter (\<lambda>v. volInfo.VlmNr v = 0) rest = []"
      by (simp add: filter_empty_conv)
    from False none have "ptr' = ?ptr1" by blast
    with f False show ?thesis by (auto simp: nth_append)
  qed
  show ?case using step a b by auto
qed

lemma VlmStates_cell:
  assumes "ptr < length store"
  shows "\<exists>ext ptr'. getDevPath_VlmStates lv (length store) vs (store @ [zero_volInfo], ptr) =
                     (store @ ext, ptr') \<and>
          ptr' < length (store @ ext) \<and>
          (store @ ext) ! ptr' =
            (if \<exists>v\<in>set vs. volInfo.VlmNr v = 0
             then (case lv of
                     PerLoop \<Rightarrow> last vs
                   | PerIteration \<Rightarrow> last (filter (\<lambda>v. volInfo.VlmNr v = 0) vs))
             else store ! ptr)"
proof (cases lv)
  case PerLoop
  let ?ext = "[if vs = [] then zero_volInfo else last vs]"
  let ?ptr = "if \<exists>v\<in>set vs. volInfo.VlmNr v = 0 then length store else ptr"
  have run: "getDevPath_VlmStates PerLoop (length store) vs (store @ [zero_volInfo], ptr) =
      (store @ ?ext, ?ptr)"
    by (simp add: VlmStates_PerLoop)
  have "?ptr < length (store @ ?ext)"
    using assms by simp
  moreover have "(store @ ?ext) ! ?ptr =
      (if \<exists>v\<in>set vs. volInfo.VlmNr v = 0 then last vs else store ! ptr)"
    using assms by (auto simp: nth_append)
  ultimately show ?thesis
    using run PerLoop by (intro exI [of _ ?ext] exI [of _ ?ptr]) simp
next
  case PerIteration
  let ?ext = "if vs = [] then [zero_volInfo] else vs @ [zero_volInfo]"
  from VlmStates_PerIteration [of store vs zero_volInfo ptr]
  obtain ptr' where
    run: "getDevPath_VlmStates PerIteration (length store) vs (store @ [zero_volInfo], ptr) =
            (store @ ?ext, ptr')"
    and none: "(\<forall>v\<in>set vs. volInfo.VlmNr v \<noteq> 0) \<longrightarrow> ptr' = ptr"
    and some: "(\<exists>v\<in>set vs. volInfo.VlmNr v = 0) \<longrightarrow>
             length store \<le> ptr' \<and> ptr' < length store + length vs \<and>
             (store @ vs) ! ptr' = last (filter (\<lambda>v. volInfo.VlmNr v = 0) vs)"
    by blast
  show ?thesis
  proof (cases "\<exists>v\<in>set vs. volInfo.VlmNr v = 0")
    case True
    with some have b: "ptr' < length store + length vs"
      and v: "(store @ vs) ! ptr' = last (filter (\<lambda>v. volInfo.VlmNr v = 0) vs)"
      by blast+
    from True have ne: "vs \<noteq> []" by auto
    have "(store @ ?ext) ! ptr' = (store @ vs) ! ptr'"
      using b ne by (simp add: nth_append)
    with v b ne True run PerIteration show ?thesis
      by (intro exI [of _ ?ext] exI [of _ ptr']) simp
  next
    case False
    with none have "ptr' = ptr" by blast
    with False run PerIteration assms show ?thesis
      by (intro exI [of _ ?ext] exI [of _ ptr']) (simp add: nth_append)
  qed
qed

lemma range_cell:
  "ptr < length store \<Longrightarrow>
   \<exists>ext ptr'. getDevPath_range lv r states (store, ptr) = (store @ ext, ptr') \<and>
     ptr' < length (store @ ext) \<and>
     (store @ ext) ! ptr' =
       (case filter (\<lambda>res. Resource.Name r = RscName res \<and>
                            (\<exists>v\<in>set (VlmStates res). volInfo.VlmNr v = 0)) states of
          [] \<Rightarrow> store ! ptr
        | m # ms \<Rightarrow>
            (case lv of
               PerLoop \<Rightarrow> last (VlmStates (last (m # ms)))
             | PerIteration \<Rightarrow>
                 last (filter (\<lambda>v. volInfo.VlmNr v = 0) (VlmStates (last (m # ms))))))"
proof (induction states arbitrary: store ptr)
  case Nil
  then show ?case by (intro exI [of _ "[]"] exI [of _ ptr]) simp
next
  case (Cons res rest)
  let ?P = "\<lambda>res. Resource.Name r = RscName res \<and> (\<exists>v\<in>set (VlmStates res). volInfo.VlmNr v = 0)"
  let ?val = "\<lambda>res. case lv of
               PerLoop \<Rightarrow> last (VlmStates res)
             | PerIteration \<Rightarrow> last (filter (\<lambda>v. volInfo.VlmNr v = 0) (VlmStates res))"
  show ?case
  proof (cases "Resource.Name r = RscName res")
    case False
    from Cons.IH [OF Cons.prems] False show ?thesis by simp
  next
    case True
    from VlmStates_cell [OF Cons.prems, of lv "VlmStates res"]
    obtain ext1 ptr1 where
      in1: "getDevPath_VlmStates lv (length store) (VlmStates res) (store @ [zero_volInfo], ptr) =
              (store @ ext1, ptr1)"
      and b1: "ptr1 < length (store @ ext1)"
      and v1: "(store @ ext1) ! ptr1 =
                 (if \<exists>v\<in>set (VlmStates res). volInfo.VlmNr v = 0 then ?val res else store ! ptr)"
      by blast
    from Cons.IH [OF b1]
    obtain ext2 ptr2 where
      in2: "getDevPath_range lv r rest (store @ ext1, ptr1) = ((store @ ext1) @ ext2, ptr2)"
      and b2: "ptr2 < length ((store @ ext1) @ ext2)"
      and v2: "((store @ ext1) @ ext2) ! ptr2 =
         (case filter ?P rest of
            [] \<Rightarrow> (store @ ext1) ! ptr1
          | m # ms \<Rightarrow> ?val (last (m # ms)))"
      by blast
    have run: "getDevPath_range lv r (res # rest) (store, ptr) = (store @ (ext1 @ ext2), ptr2)"
      using True in1 in2 by simp
    have val: "(store @ (ext1 @ ext2)) ! ptr2 =
         (case filter ?P (res # rest) of
            [] \<Rightarrow> store ! ptr
          | m # ms \<Rightarrow> ?val (last (m # ms)))"
    proof (cases "\<exists>v\<in>set (VlmStates res). volInfo.VlmNr v = 0")
      case h: True
      with True have f: "filter ?P (res # rest) = res # filter ?P rest"
        by simp
      from v1 h have w: "(store @ ext1) ! ptr1 = ?val res"
        by simp
      show ?thesis
      proof (cases "filter ?P rest")
        case Nil
        show ?thesis
          unfolding f using v2 w Nil by (simp split: loopvar.splits)
      next
        case (Cons m ms)
        show ?thesis
          unfolding f using v2 Cons by (simp split: loopvar.splits)
      qed
    next
      case h: False
      then have f: "filter ?P (res # rest) = filter ?P rest"
        by simp
      from v1 h have w: "(store @ ext1) ! ptr1 = store ! ptr"
        by simp
      from v2 show ?thesis
        by (simp only: f w append_assoc)
    qed
    from run b2 val show ?thesis
      by (intro exI [of _ "ext1 @ ext2"] exI [of _ ptr2]) simp
  qed
qed

lemma range_from_start:
  "\<exists>store ptr. getDevPath_range lv r states ([zero_volInfo], 0) = (store, ptr) \<and>
     ptr < length store \<and>
     store ! ptr =
       (case filter (\<lambda>res. Resource.Name r = RscName res \<and>
                            (\<exists>v\<in>set (VlmStates res). volInfo.VlmNr v = 0)) states of
          [] \<Rightarrow> zero_volInfo
        | m # ms \<Rightarrow>
            (case lv of
               PerLoop \<Rightarrow> last (VlmStates (last (m # ms)))
             | PerIteration \<Rightarrow>
                 last (filter (\<lambda>v. volInfo.VlmNr v = 0) (VlmStates (last (m # ms))))))"
proof -
  have z: "[zero_volInfo] ! 0 = zero_volInfo" by simp
  from range_cell [of 0 "[zero_volInfo]" lv r states]
  obtain ext ptr' where
    "getDevPath_range lv r states ([zero_volInfo], 0) = ([zero_volInfo] @ ext, ptr')"
    "ptr' < length ([zero_volInfo] @ ext)"
    "([zero_volInfo] @ ext) ! ptr' =
       (case filter (\<lambda>res. Resource.Name r = RscName res \<and>
                            (\<exists>v\<in>set (VlmStates res). volInfo.VlmNr v = 0)) states of
          [] \<Rightarrow> [zero_volInfo] ! 0
        | m # ms \<Rightarrow>
            (case lv of
               PerLoop \<Rightarrow> last (VlmStates (last (m # ms)))
             | PerIteration \<Rightarrow>
                 last (filter (\<lambda>v. volInfo.VlmNr v = 0) (VlmStates (last (m # ms))))))"
    by auto
  then show ?thesis
    by (intro exI [of _ "[zero_volInfo] @ ext"] exI [of _ ptr']) (simp only: z simp_thms)
qed

lemma last_filter_last: "xs \<noteq> [] \<Longrightarrow> P (last xs) \<Longrightarrow> last (filter P xs) = last xs"
  by (induction xs rule: rev_induct) auto


lemma getDevPath_value:
  assumes c: "CombinedOutput h ls_rsc (world s) = ((out, None), w)"
    and u: "Unmarshal_resList h out = Inr (entry # rest)"
    and v: "val =
       (case filter (\<lambda>res. Resource.Name r = RscName res \<and>
                            (\<exists>v\<in>set (VlmStates res). volInfo.VlmNr v = 0)) (ResourceStates entry) of
          [] \<Rightarrow> zero_volInfo
        | m # ms \<Rightarrow>
            (case loopvar h of
               PerLoop \<Rightarrow> last (VlmStates (last (m # ms)))
             | PerIteration \<Rightarrow>
                 last (filter (\<lambda>v. volInfo.VlmNr v = 0) (VlmStates (last (m # ms))))))"
  shows "getDevPath h r s =
     ((case Lstat h (doGetDevPath val) w of
         Some err \<Rightarrow> Err (CouldntStat (doGetDevPath val) err)
       | None \<Rightarrow> Ok (doGetDevPath val)),
      \<lparr>world = w, issued = issued s @ [ls_rsc]\<rparr>)"
proof -
  from range_from_start [of "loopvar h" r "ResourceStates entry"] v
  obtain store ptr where
    run: "getDevPath_range (loopvar h) r (ResourceStates entry) ([zero_volInfo], 0) = (store, ptr)"
    and val: "store ! ptr = val"
    by auto
  show ?thesis
    using c u run val
    by (simp add: getDevPath_def exec_Command_def Let_def split: option.splits)
qed

lemmas example_defs =
  two_nodes_def two_volumes_def no_volume0_def rsc_state_def rsc_def vol_def
  zero_resState_def zero_resInfo_def zero_volInfo_def resource_r0_def resource_r1_def
  zero_Resource_def start_def

lemma getDevPath_examples:
  "getDevPath (listing_host json_two_nodes lv) resource_r0 start =
     (Ok ''/dev/drbd9'', \<lparr>world = (), issued = [ls_rsc]\<rparr>)"
  "getDevPath (listing_host json_two_volumes PerIteration) resource_r0 start =
     (Ok ''/dev/drbd7'', \<lparr>world = (), issued = [ls_rsc]\<rparr>)"
  "getDevPath (listing_host json_two_volumes PerLoop) resource_r0 start =
     (Ok ''/dev/drbd8'', \<lparr>world = (), issued = [ls_rsc]\<rparr>)"
  by (cases lv; simp add: getDevPath_def exec_Command_def listing_host_simps unmarshal_examples
      example_defs doGetDevPath_def Sprintf_d_def digits.simps Let_def)+



text \<open>
  C4, as stated, fails: the loops have no \<open>break\<close>, so a later matching record
  overwrites an earlier one. With two resource-state records for \<open>r0\<close>, the first with
  minor number 7 and the second with minor number 9, the path is \<open>/dev/drbd9\<close>, not the
  \<open>/dev/drbd7\<close> of the first matching record; under either rule for loop variables.
\<close>

theorem getDevPath_first_match_counterexample:
  "ResourceStates (hd two_nodes) =
     [rsc_state ''r0'' ''alpha'' [vol 0 7 True], rsc_state ''r0'' ''beta'' [vol 0 9 False]] \<and>
   RscName (rsc_state ''r0'' ''alpha'' [vol 0 7 True]) = Resource.Name resource_r0 \<and>
   VlmStates (rsc_state ''r0'' ''alpha'' [vol 0 7 True]) = [vol 0 7 True] \<and>
   volInfo.VlmNr (vol 0 7 True) = 0 \<and>
   doGetDevPath (vol 0 7 True) = ''/dev/drbd7'' \<and>
   getDevPath (listing_host json_two_nodes PerLoop) resource_r0 start =
     (Ok ''/dev/drbd9'', \<lparr>world = (), issued = [ls_rsc]\<rparr>) \<and>
   getDevPath (listing_host json_two_nodes PerIteration) resource_r0 start =
     (Ok ''/dev/drbd9'', \<lparr>world = (), issued = [ls_rsc]\<rparr>)"
proof -
  have "ResourceStates (hd two_nodes) =
     [rsc_state ''r0'' ''alpha'' [vol 0 7 True], rsc_state ''r0'' ''beta'' [vol 0 9 False]]"
    by (simp add: two_nodes_def)
  moreover have "RscName (rsc_state ''r0'' ''alpha'' [vol 0 7 True]) = Resource.Name resource_r0"
    and "VlmStates (rsc_state ''r0'' ''alpha'' [vol 0 7 True]) = [vol 0 7 True]"
    and "volInfo.VlmNr (vol 0 7 True) = 0"
    by (simp_all add: example_defs)
  moreover have "doGetDevPath (vol 0 7 True) = ''/dev/drbd7''"
    by (simp add: doGetDevPath_def vol_def zero_volInfo_def Sprintf_d_def digits.simps)
  ultimately show ?thesis
    by (simp only: getDevPath_examples simp_thms)
qed

text \<open>
  C4, amended: \<open>doGetDevPath\<close> turns minor number 7 into \<open>/dev/drbd7\<close> and 0 into
  \<open>/dev/drbd0\<close>. For every resource, when the listing query succeeds and decodes to a
  list that is not empty, an attempt takes, among the resource-state records of the
  first element that have the resource's name (on any node) and carry a volume number
  0, the LAST one; when the last volume entry of that record is its volume 0, the
  attempt takes that entry's minor number \<open>m\<close>, builds the path \<open>/dev/drbd\<close> followed by
  \<open>m\<close> in decimal, and returns the path only if \<open>os.Lstat\<close> finds it (otherwise the
  error \<open>Couldn't stat\<close> and no path). Nothing is said of a record whose volume 0 is
  followed by other volumes: there the result depends on the language version's rule
  for loop variables (see \<open>getDevPath_examples\<close>).
\<close>

theorem getDevPath_last_match:
  "doGetDevPath (v\<lparr>volInfo.VlmMinorNr := 7\<rparr>) = ''/dev/drbd7'' \<and>
   doGetDevPath (v\<lparr>volInfo.VlmMinorNr := 0\<rparr>) = ''/dev/drbd0'' \<and>
   (CombinedOutput h ls_rsc (world s) = ((out, None), w) \<and>
    Unmarshal_resList h out = Inr (entry # rest) \<and>
    matches = filter (\<lambda>res. Resource.Name r = RscName res \<and>
                             (\<exists>v\<in>set (VlmStates res). volInfo.VlmNr v = 0)) (ResourceStates entry) \<and>
    matches \<noteq> [] \<and>
    chosen = last (VlmStates (last matches)) \<and>
    volInfo.VlmNr chosen = 0 \<and>
    path = ''/dev/drbd'' @ Sprintf_d (volInfo.VlmMinorNr chosen) \<longrightarrow>
      getDevPath h r s =
        ((case Lstat h path w of
            Some err \<Rightarrow> Err (CouldntStat path err)
          | None \<Rightarrow> Ok path),
         \<lparr>world = w, issued = issued s @ [ls_rsc]\<rparr>))"
proof (intro conjI impI)
  show "doGetDevPath (v\<lparr>volInfo.VlmMinorNr := 7\<rparr>) = ''/dev/drbd7''"
    by (simp add: doGetDevPath_def Sprintf_d_def digits.simps)
  show "doGetDevPath (v\<lparr>volInfo.VlmMinorNr := 0\<rparr>) = ''/dev/drbd0''"
    by (simp add: doGetDevPath_def Sprintf_d_def digits.simps)
next
  let ?P = "\<lambda>res. Resource.Name r = RscName res \<and> (\<exists>v\<in>set (VlmStates res). volInfo.VlmNr v = 0)"
  assume a: "CombinedOutput h ls_rsc (world s) = ((out, None), w) \<and>
    Unmarshal_resList h out = Inr (entry # rest) \<and>
    matches = filter ?P (ResourceStates entry) \<and>
    matches \<noteq> [] \<and>
    chosen = last (VlmStates (last matches)) \<and>
    volInfo.VlmNr chosen = 0 \<and>
    path = ''/dev/drbd'' @ Sprintf_d (volInfo.VlmMinorNr chosen)"
  then have c: "CombinedOutput h ls_rsc (world s) = ((out, None), w)"
    and u: "Unmarshal_resList h out = Inr (entry # rest)"
    and m0: "matches = filter ?P (ResourceStates entry)" and ne: "matches \<noteq> []"
    and ch: "chosen = last (VlmStates (last matches))" and z: "volInfo.VlmNr chosen = 0"
    and p0: "path = ''/dev/drbd'' @ Sprintf_d (volInfo.VlmMinorNr chosen)"
    by blast+
  from m0 have m: "filter ?P (ResourceStates entry) = matches" by (rule sym)
  from p0 have p: "path = doGetDevPath chosen" by (simp only: doGetDevPath_def)
  from ne obtain x xs where cons: "matches = x # xs" by (cases matches) auto
  from ne have "last matches \<in> set matches"
    by simp
  then have "last matches \<in> set (filter ?P (ResourceStates entry))"
    by (simp only: m)
  then have "\<exists>v\<in>set (VlmStates (last matches)). volInfo.VlmNr v = 0"
    by simp
  then have vne: "VlmStates (last matches) \<noteq> []" by auto
  have lf: "last (filter (\<lambda>v. volInfo.VlmNr v = 0) (VlmStates (last matches))) = chosen"
    using last_filter_last [OF vne, of "\<lambda>v. volInfo.VlmNr v = 0"] z ch by simp
  have val: "chosen =
       (case filter ?P (ResourceStates entry) of
          [] \<Rightarrow> zero_volInfo
        | m # ms \<Rightarrow>
            (case loopvar h of
               PerLoop \<Rightarrow> last (VlmStates (last (m # ms)))
             | PerIteration \<Rightarrow>
                 last (filter (\<lambda>v. volInfo.VlmNr v = 0) (VlmStates (last (m # ms))))))"
    unfolding m using lf ch unfolding cons
    by (cases "loopvar h") (simp_all del: last.simps)
  show "getDevPath h r s =
        ((case Lstat h path w of
            Some err \<Rightarrow> Err (CouldntStat path err)
          | None \<Rightarrow> Ok path),
         \<lparr>world = w, issued = issued s @ [ls_rsc]\<rparr>)"
    unfolding p by (rule getDevPath_value [OF c u val])
qed

theorem getDevPath_last_match_witness:
  "getDevPath (listing_host json_two_nodes PerLoop) resource_r0 start =
     (Ok ''/dev/drbd9'', \<lparr>world = (), issued = [ls_rsc]\<rparr>) \<and>
   getDevPath (listing_host json_two_nodes PerIteration) resource_r0 start =
     (Ok ''/dev/drbd9'', \<lparr>world = (), issued = [ls_rsc]\<rparr>)"
proof -
  have hyp: "CombinedOutput (listing_host json_two_nodes lv) ls_rsc (world start) =
       ((json_two_nodes, None), ()) \<and>
    Unmarshal_resList (listing_host json_two_nodes lv) json_two_nodes = Inr (hd two_nodes # []) \<and>
    [rsc_state ''r0'' ''alpha'' [vol 0 7 True], rsc_state ''r0'' ''beta'' [vol 0 9 False]] =
      filter (\<lambda>res. Resource.Name resource_r0 = RscName res \<and>
                     (\<exists>v\<in>set (VlmStates res). volInfo.VlmNr v = 0)) (ResourceStates (hd two_nodes)) \<and>
    [rsc_state ''r0'' ''alpha'' [vol 0 7 True], rsc_state ''r0'' ''beta'' [vol 0 9 False]] \<noteq> [] \<and>
    vol 0 9 False =
      last (VlmStates (last [rsc_state ''r0'' ''alpha'' [vol 0 7 True],
                             rsc_state ''r0'' ''beta'' [vol 0 9 False]])) \<and>
    volInfo.VlmNr (vol 0 9 False) = 0 \<and>
    ''/dev/drbd9'' = ''/dev/drbd'' @ Sprintf_d (volInfo.VlmMinorNr (vol 0 9 False))" for lv
    by (simp add: listing_host_simps unmarshal_examples example_defs Sprintf_d_def digits.simps)
  show ?thesis
    using getDevPath_last_match [where h = "listing_host json_two_nodes PerLoop"
        and r = resource_r0 and s = start,
        THEN conjunct2, THEN conjunct2, THEN mp, OF hyp [of PerLoop]]
      getDevPath_last_match [where h = "listing_host json_two_nodes PerIteration"
        and r = resource_r0 and s = start,
        THEN conjunct2, THEN conjunct2, THEN mp, OF hyp [of PerIteration]]
    by (simp add: listing_host_simps start_def)
qed

end
